theory Spec2Isabelle
  imports Main
begin

section \<open>Python values used by \<^verbatim>\<open>scripts/run_benchmarks.py\<close>\<close>

text \<open>
  A Python \<^verbatim>\<open>str\<close> is a sequence of Unicode code points and \<^verbatim>\<open>len\<close> counts code
  points, so a string is modelled as the list of its code points. \<open>ascii\<close> embeds an
  ASCII literal of the source.
\<close>

type_synonym pystr = "nat list"

definition ascii :: "string \<Rightarrow> pystr" where
  "ascii s = map of_char s"

text \<open>
  \<^verbatim>\<open>str(depth)\<close> for a Python \<^verbatim>\<open>int\<close>: the decimal digits, most significant first,
  after a minus sign when the number is negative.
\<close>

fun digits_of :: "nat \<Rightarrow> pystr" where
  "digits_of n = (if n < 10 then [48 + n] else digits_of (n div 10) @ [48 + n mod 10])"

declare digits_of.simps [simp del]

definition str_int :: "int \<Rightarrow> pystr" where
  "str_int i = (if i < 0 then ascii ''-'' @ digits_of (nat (- i)) else digits_of (nat i))"

text \<open>Reading a decimal numeral back, to say what "decimal string form" means.\<close>

definition decimal_nat :: "pystr \<Rightarrow> nat" where
  "decimal_nat s = foldl (\<lambda>acc c. 10 * acc + (c - 48)) 0 s"

definition decimal_int :: "pystr \<Rightarrow> int" where
  "decimal_int s =
     (case s of
        [] \<Rightarrow> 0
      | c # cs \<Rightarrow> if c = 45 then - int (decimal_nat cs) else int (decimal_nat s))"

section \<open>Targets\<close>

text \<open>
  \<^verbatim>\<open>@dataclass class Target\<close>: \<^verbatim>\<open>name\<close>, \<^verbatim>\<open>cwd\<close>, \<^verbatim>\<open>template\<close> and the optional
  \<^verbatim>\<open>env\<close> (a dict of environment overrides, \<^verbatim>\<open>None\<close> by default).
\<close>

record Target =
  name :: pystr
  cwd :: pystr
  template :: "pystr list"
  env :: "(pystr \<rightharpoonup> pystr) option"

text \<open>
  \<^verbatim>\<open>Target.command\<close>: the loop over \<^verbatim>\<open>self.template\<close> appends to \<^verbatim>\<open>cmd\<close>, which is the
  accumulator of \<open>command_loop\<close>.
\<close>

fun command_loop :: "pystr list \<Rightarrow> int \<Rightarrow> pystr list \<Rightarrow> pystr list" where
  "command_loop [] depth cmd = cmd"
| "command_loop (token # rest) depth cmd =
     (if token = ascii ''{n}''
      then command_loop rest depth (cmd @ [str_int depth])
      else command_loop rest depth (cmd @ [token]))"

definition command :: "Target \<Rightarrow> int \<Rightarrow> pystr list" where
  "command t depth = command_loop (template t) depth []"

section \<open>Python objects, dictionaries and exceptions\<close>

text \<open>
  A Python \<^verbatim>\<open>float\<close> is an IEEE 754 binary64 number. \<open>Finite s m e\<close> stands for
  \<open>(-1)\<^sup>s * m * 2\<^sup>e\<close>; the conversions below produce it with \<open>m < 2\<^sup>5\<^sup>3\<close> and
  \<open>- 1074 \<le> e \<le> 971\<close>, zero as \<open>Finite s 0 0\<close>.
\<close>

datatype pyfloat = Finite bool nat int | Infinity bool | NaN

text \<open>The objects \<^verbatim>\<open>json.loads\<close> can return. A dict keeps its items in insertion order.\<close>

datatype pyval =
    PNone
  | PBool bool
  | PInt int
  | PFloat pyfloat
  | PStr pystr
  | PList "pyval list"
  | PDict "(pystr \<times> pyval) list"

type_synonym pydict = "(pystr \<times> pyval) list"

text \<open>
  The exceptions this program can raise. \<open>CalledProcessError returncode cmd output stderr\<close>
  carries the captured streams only when \<^verbatim>\<open>subprocess.run\<close> captured them. \<open>NotModelled\<close>
  is not a Python exception: it marks the one place where Python would go on and this
  model does not follow it (\<^verbatim>\<open>str\<close> of a float, a list or a dict).
\<close>

datatype pyerror =
    OSError
  | CalledProcessError int "pystr list" "pystr option" "pystr option"
  | RuntimeError pystr
  | FileNotFoundError
  | UnicodeDecodeError
  | JSONDecodeError
  | TypeError
  | ValueError
  | KeyError pystr
  | AttributeError
  | IndexError
  | OverflowError
  | NotModelled

text \<open>\<^verbatim>\<open>d[key]\<close> and \<^verbatim>\<open>d[key] = v\<close> on a dict: an existing key keeps its place.\<close>

fun dict_get :: "pydict \<Rightarrow> pystr \<Rightarrow> pyval option" where
  "dict_get [] k = None"
| "dict_get ((k', v) # kvs) k = (if k' = k then Some v else dict_get kvs k)"

fun dict_set :: "pydict \<Rightarrow> pystr \<Rightarrow> pyval \<Rightarrow> pydict" where
  "dict_set [] k v = [(k, v)]"
| "dict_set ((k', v') # kvs) k v =
     (if k' = k then (k, v) # kvs else (k', v') # dict_set kvs k v)"

text \<open>
  \<^verbatim>\<open>data[key] = v\<close> on whatever \<^verbatim>\<open>json.loads\<close> returned: only a dict supports
  assignment to a string key, every other object raises \<^verbatim>\<open>TypeError\<close>.
\<close>

definition setitem :: "pyval \<Rightarrow> pystr \<Rightarrow> pyval \<Rightarrow> pyerror + pyval" where
  "setitem obj k v =
     (case obj of PDict kvs \<Rightarrow> Inr (PDict (dict_set kvs k v)) | _ \<Rightarrow> Inl TypeError)"

section \<open>Strings\<close>

text \<open>\<^verbatim>\<open>str.isspace\<close> on one code point, and \<^verbatim>\<open>str.strip()\<close>.\<close>

definition isspace :: "nat \<Rightarrow> bool" where
  "isspace c =
     ((9 \<le> c \<and> c \<le> 13) \<or> (28 \<le> c \<and> c \<le> 32) \<or> c = 133 \<or> c = 160 \<or> c = 5760 \<or>
      (8192 \<le> c \<and> c \<le> 8202) \<or> c = 8232 \<or> c = 8233 \<or> c = 8239 \<or> c = 8287 \<or>
      c = 12288)"

definition strip :: "pystr \<Rightarrow> pystr" where
  "strip s = rev (dropWhile isspace (rev (dropWhile isspace s)))"

text \<open>\<^verbatim>\<open>sep.join(parts)\<close>, \<^verbatim>\<open>s.ljust(width)\<close> and \<^verbatim>\<open>"-" * width\<close>.\<close>

fun join :: "pystr \<Rightarrow> pystr list \<Rightarrow> pystr" where
  "join sep [] = []"
| "join sep [x] = x"
| "join sep (x # y # ys) = x @ sep @ join sep (y # ys)"

definition ljust :: "pystr \<Rightarrow> nat \<Rightarrow> pystr" where
  "ljust s width = s @ replicate (width - length s) 32"

definition dashes :: "nat \<Rightarrow> pystr" where
  "dashes width = replicate width 45"

section \<open>Floats: conversion from decimal text and the \<^verbatim>\<open>.2f\<close> format\<close>

text \<open>
  Both conversions of CPython are correctly rounded, to nearest with ties to even.
  \<open>rhe_div x y\<close> is \<open>x / y\<close> rounded that way.
\<close>

definition rhe_div :: "nat \<Rightarrow> nat \<Rightarrow> nat" where
  "rhe_div x y =
     (let q = x div y; r = x mod y
      in if 2 * r < y then q else if y < 2 * r then q + 1 else if even q then q else q + 1)"

fun bitlen :: "nat \<Rightarrow> nat" where
  "bitlen n = (if n = 0 then 0 else Suc (bitlen (n div 2)))"

declare bitlen.simps [simp del]

text \<open>The greatest \<open>e\<close> with \<open>2\<^sup>e \<le> a / b\<close>, for positive \<open>a\<close> and \<open>b\<close>.\<close>

definition floor_log2 :: "nat \<Rightarrow> nat \<Rightarrow> int" where
  "floor_log2 a b =
     (let d = int (bitlen a) - int (bitlen b)
      in if b * 2 ^ nat d \<le> a * 2 ^ nat (- d) then d else d - 1)"

text \<open>The binary64 number nearest to \<open>(-1)\<^sup>s * a / b\<close>; beyond the largest one, infinity.\<close>

definition round_to_double :: "bool \<Rightarrow> nat \<Rightarrow> nat \<Rightarrow> pyfloat" where
  "round_to_double s a b =
     (if a = 0 then Finite s 0 0
      else
        let e = max (floor_log2 a b - 52) (- 1074);
            m = rhe_div (a * 2 ^ nat (- e)) (b * 2 ^ nat e);
            m' = (if m = 2 ^ 53 then 2 ^ 52 else m);
            e' = (if m = 2 ^ 53 then e + 1 else e)
        in if 971 < e' then Infinity s
           else if m' = 0 then Finite s 0 0
           else Finite s m' e')"

text \<open>\<^verbatim>\<open>float(text)\<close> for the decimal number \<open>(-1)\<^sup>s * n * 10\<^sup>k\<close>.\<close>

definition float_of_decimal :: "bool \<Rightarrow> nat \<Rightarrow> int \<Rightarrow> pyfloat" where
  "float_of_decimal s n k =
     (if 0 \<le> k then round_to_double s (n * 10 ^ nat k) 1
      else round_to_double s n (10 ^ nat (- k)))"

text \<open>\<^verbatim>\<open>float(i)\<close> for an int: \<^verbatim>\<open>OverflowError\<close> where the float would be infinite.\<close>

definition float_of_int :: "int \<Rightarrow> pyerror + pyfloat" where
  "float_of_int i =
     (case round_to_double (i < 0) (nat \<bar>i\<bar>) 1 of
        Infinity s \<Rightarrow> Inl OverflowError
      | f \<Rightarrow> Inr f)"

definition two_digits :: "nat \<Rightarrow> pystr" where
  "two_digits n = [48 + n div 10, 48 + n mod 10]"

text \<open>\<^verbatim>\<open>format(x, ".2f")\<close> for a float \<open>x\<close>.\<close>

definition format_2f_float :: "pyfloat \<Rightarrow> pystr" where
  "format_2f_float x =
     (case x of
        NaN \<Rightarrow> ascii ''nan''
      | Infinity s \<Rightarrow> (if s then ascii ''-inf'' else ascii ''inf'')
      | Finite s m e \<Rightarrow>
          let n = (if 0 \<le> e then m * 2 ^ nat e * 100 else rhe_div (m * 100) (2 ^ nat (- e)))
          in (if s then ascii ''-'' else []) @ digits_of (n div 100) @ ascii ''.'' @
             two_digits (n mod 100))"

text \<open>
  \<^verbatim>\<open>f"{v:.2f}"\<close> for an object \<open>v\<close> of a result: a float is formatted, an int or a bool
  is converted to float first, a str raises \<^verbatim>\<open>ValueError\<close>, and \<^verbatim>\<open>None\<close>, a list or a
  dict raises \<^verbatim>\<open>TypeError\<close>.
\<close>

definition format_2f :: "pyval \<Rightarrow> pyerror + pystr" where
  "format_2f v =
     (case v of
        PFloat x \<Rightarrow> Inr (format_2f_float x)
      | PInt i \<Rightarrow> (case float_of_int i of Inl e \<Rightarrow> Inl e | Inr x \<Rightarrow> Inr (format_2f_float x))
      | PBool b \<Rightarrow> Inr (if b then ascii ''1.00'' else ascii ''0.00'')
      | PStr s \<Rightarrow> Inl ValueError
      | _ \<Rightarrow> Inl TypeError)"

text \<open>
  \<^verbatim>\<open>f"{v}"\<close>, that is \<^verbatim>\<open>str(v)\<close>. \<^verbatim>\<open>run_measurement\<close> always stores an int under
  \<^verbatim>\<open>"depth"\<close>; the \<^verbatim>\<open>repr\<close> of a float, a list or a dict is outside this model.
\<close>

definition format_str :: "pyval \<Rightarrow> pyerror + pystr" where
  "format_str v =
     (case v of
        PInt i \<Rightarrow> Inr (str_int i)
      | PBool b \<Rightarrow> Inr (if b then ascii ''True'' else ascii ''False'')
      | PNone \<Rightarrow> Inr (ascii ''None'')
      | PStr s \<Rightarrow> Inr s
      | _ \<Rightarrow> Inl NotModelled)"

section \<open>\<^verbatim>\<open>json.loads\<close>\<close>

text \<open>
  The decoder of the standard library, as far as its result goes: the value for a text
  that is one JSON document (with CPython's extensions \<^verbatim>\<open>NaN\<close>, \<^verbatim>\<open>Infinity\<close> and
  \<^verbatim>\<open>-Infinity\<close>), \<^verbatim>\<open>JSONDecodeError\<close> for every other text. The text is cut into
  tokens, and a stack of open containers takes the tokens one by one. Two limits of
  CPython are left out: the recursion limit on nesting and the limit on the number of
  digits of an int.
\<close>

datatype token =
    LBrace | RBrace | LBracket | RBracket | Colon | Comma
  | TString pystr
  | TAtom pystr

text \<open>
  The lexer is between tokens, inside a number or literal, inside a string, after a
  backslash, or inside the four hex digits of \<^verbatim>\<open>\u\<close>.
\<close>

datatype lexmode =
    Idle
  | InAtom pystr
  | InString pystr
  | InEscape pystr
  | InHex pystr "nat list"

definition json_ws :: "nat \<Rightarrow> bool" where
  "json_ws c = (c = 32 \<or> c = 9 \<or> c = 10 \<or> c = 13)"

definition punct :: "nat \<Rightarrow> token option" where
  "punct c =
     (if c = 123 then Some LBrace else if c = 125 then Some RBrace
      else if c = 91 then Some LBracket else if c = 93 then Some RBracket
      else if c = 58 then Some Colon else if c = 44 then Some Comma else None)"

definition simple_escape :: "nat \<Rightarrow> nat option" where
  "simple_escape c =
     (if c = 34 then Some 34 else if c = 92 then Some 92 else if c = 47 then Some 47
      else if c = 98 then Some 8 else if c = 102 then Some 12 else if c = 110 then Some 10
      else if c = 114 then Some 13 else if c = 116 then Some 9 else None)"

definition hex_digit :: "nat \<Rightarrow> nat option" where
  "hex_digit c =
     (if 48 \<le> c \<and> c \<le> 57 then Some (c - 48)
      else if 97 \<le> c \<and> c \<le> 102 then Some (c - 87)
      else if 65 \<le> c \<and> c \<le> 70 then Some (c - 55)
      else None)"

text \<open>
  A \<^verbatim>\<open>\u\<close> escape for a high surrogate followed by one for a low surrogate is one code
  point. Text decoded from UTF-8 holds no surrogate of its own, so the pairs of a string
  are exactly the pairs of escapes.
\<close>

fun join_surrogates :: "pystr \<Rightarrow> pystr" where
  "join_surrogates (h # l # rest) =
     (if 55296 \<le> h \<and> h \<le> 56319 \<and> 56320 \<le> l \<and> l \<le> 57343
      then (65536 + (h - 55296) * 1024 + (l - 56320)) # join_surrogates rest
      else h # join_surrogates (l # rest))"
| "join_surrogates s = s"

fun lex_step :: "lexmode \<times> token list \<Rightarrow> nat \<Rightarrow> (lexmode \<times> token list) option" where
  "lex_step (Idle, ts) c =
     (if json_ws c then Some (Idle, ts)
      else case punct c of
        Some t \<Rightarrow> Some (Idle, ts @ [t])
      | None \<Rightarrow> if c = 34 then Some (InString [], ts) else Some (InAtom [c], ts))"
| "lex_step (InAtom a, ts) c =
     (if json_ws c then Some (Idle, ts @ [TAtom a])
      else case punct c of
        Some t \<Rightarrow> Some (Idle, ts @ [TAtom a, t])
      | None \<Rightarrow>
          if c = 34 then Some (InString [], ts @ [TAtom a]) else Some (InAtom (a @ [c]), ts))"
| "lex_step (InString s, ts) c =
     (if c = 34 then Some (Idle, ts @ [TString (join_surrogates s)])
      else if c = 92 then Some (InEscape s, ts)
      else if c < 32 then None
      else Some (InString (s @ [c]), ts))"
| "lex_step (InEscape s, ts) c =
     (if c = 117 then Some (InHex s [], ts)
      else case simple_escape c of
        Some d \<Rightarrow> Some (InString (s @ [d]), ts)
      | None \<Rightarrow> None)"
| "lex_step (InHex s h, ts) c =
     (case hex_digit c of
        None \<Rightarrow> None
      | Some d \<Rightarrow>
          if length h = 3
          then Some (InString (s @ [foldl (\<lambda>acc x. 16 * acc + x) 0 (h @ [d])]), ts)
          else Some (InHex s (h @ [d]), ts))"

fun lex_loop :: "lexmode \<times> token list \<Rightarrow> pystr \<Rightarrow> (lexmode \<times> token list) option" where
  "lex_loop st [] = Some st"
| "lex_loop st (c # cs) = (case lex_step st c of None \<Rightarrow> None | Some st' \<Rightarrow> lex_loop st' cs)"

definition tokenize :: "pystr \<Rightarrow> token list option" where
  "tokenize s =
     (case lex_loop (Idle, []) s of
        Some (Idle, ts) \<Rightarrow> Some ts
      | Some (InAtom a, ts) \<Rightarrow> Some (ts @ [TAtom a])
      | _ \<Rightarrow> None)"

text \<open>
  A number is \<^verbatim>\<open>-?(0|[1-9][0-9]*)(\.[0-9]+)?([eE][-+]?[0-9]+)?\<close>: an int when it has
  neither fraction nor exponent, a float otherwise.
\<close>

definition is_digit :: "nat \<Rightarrow> bool" where
  "is_digit c = (48 \<le> c \<and> c \<le> 57)"

definition parse_number :: "pystr \<Rightarrow> pyval option" where
  "parse_number a =
     (let neg = (a \<noteq> [] \<and> hd a = 45);
          r1 = (if neg then tl a else a);
          ip = takeWhile is_digit r1;
          r2 = dropWhile is_digit r1;
          has_frac = (r2 \<noteq> [] \<and> hd r2 = 46);
          fp = (if has_frac then takeWhile is_digit (tl r2) else []);
          r3 = (if has_frac then dropWhile is_digit (tl r2) else r2);
          has_exp = (r3 \<noteq> [] \<and> (hd r3 = 101 \<or> hd r3 = 69));
          r4 = (if has_exp then tl r3 else r3);
          eneg = (has_exp \<and> r4 \<noteq> [] \<and> hd r4 = 45);
          ep = (if has_exp \<and> r4 \<noteq> [] \<and> (hd r4 = 45 \<or> hd r4 = 43) then tl r4 else r4)
      in if ip = [] \<or> (hd ip = 48 \<and> ip \<noteq> [48]) then None
         else if has_frac \<and> fp = [] then None
         else if has_exp \<and> (ep = [] \<or> \<not> list_all is_digit ep) then None
         else if \<not> has_exp \<and> r3 \<noteq> [] then None
         else if \<not> has_frac \<and> \<not> has_exp
         then Some (PInt (if neg then - int (decimal_nat ip) else int (decimal_nat ip)))
         else Some (PFloat (float_of_decimal neg (decimal_nat (ip @ fp))
                 ((if eneg then - int (decimal_nat ep) else int (decimal_nat ep))
                    - int (length fp)))))"

definition atom_value :: "pystr \<Rightarrow> pyval option" where
  "atom_value a =
     (if a = ascii ''null'' then Some PNone
      else if a = ascii ''true'' then Some (PBool True)
      else if a = ascii ''false'' then Some (PBool False)
      else if a = ascii ''NaN'' then Some (PFloat NaN)
      else if a = ascii ''Infinity'' then Some (PFloat (Infinity False))
      else if a = ascii ''-Infinity'' then Some (PFloat (Infinity True))
      else parse_number a)"

text \<open>
  The open containers, innermost first: a list with its items so far, or a dict with
  its items so far and the key that waits for its value. A repeated key keeps its first
  place and takes the last value, as \<^verbatim>\<open>dict\<close> does.
\<close>

datatype frame = InList "pyval list" | InDict pydict "pystr option"

datatype expect =
    WantValue | WantValueOrEnd | WantKey | WantKeyOrEnd | WantColon | AfterValue
  | Complete pyval

definition deliver :: "pyval \<Rightarrow> frame list \<Rightarrow> (expect \<times> frame list) option" where
  "deliver v st =
     (case st of
        [] \<Rightarrow> Some (Complete v, [])
      | InList xs # r \<Rightarrow> Some (AfterValue, InList (xs @ [v]) # r)
      | InDict kvs (Some k) # r \<Rightarrow> Some (AfterValue, InDict (dict_set kvs k v) None # r)
      | InDict kvs None # r \<Rightarrow> None)"

definition close_list :: "frame list \<Rightarrow> (expect \<times> frame list) option" where
  "close_list st = (case st of InList xs # r \<Rightarrow> deliver (PList xs) r | _ \<Rightarrow> None)"

definition close_dict :: "frame list \<Rightarrow> (expect \<times> frame list) option" where
  "close_dict st = (case st of InDict kvs None # r \<Rightarrow> deliver (PDict kvs) r | _ \<Rightarrow> None)"

definition value_token :: "bool \<Rightarrow> frame list \<Rightarrow> token \<Rightarrow> (expect \<times> frame list) option" where
  "value_token may_end st t =
     (case t of
        TAtom a \<Rightarrow> (case atom_value a of None \<Rightarrow> None | Some v \<Rightarrow> deliver v st)
      | TString s \<Rightarrow> deliver (PStr s) st
      | LBracket \<Rightarrow> Some (WantValueOrEnd, InList [] # st)
      | LBrace \<Rightarrow> Some (WantKeyOrEnd, InDict [] None # st)
      | RBracket \<Rightarrow> (if may_end then close_list st else None)
      | _ \<Rightarrow> None)"

definition key_token :: "bool \<Rightarrow> frame list \<Rightarrow> token \<Rightarrow> (expect \<times> frame list) option" where
  "key_token may_end st t =
     (case t of
        TString s \<Rightarrow>
          (case st of
             InDict kvs None # r \<Rightarrow> Some (WantColon, InDict kvs (Some s) # r)
           | _ \<Rightarrow> None)
      | RBrace \<Rightarrow> (if may_end then close_dict st else None)
      | _ \<Rightarrow> None)"

definition parse_step :: "expect \<times> frame list \<Rightarrow> token \<Rightarrow> (expect \<times> frame list) option" where
  "parse_step pst t =
     (case pst of (e, st) \<Rightarrow>
        (case e of
           WantValue \<Rightarrow> value_token False st t
         | WantValueOrEnd \<Rightarrow> value_token True st t
         | WantKey \<Rightarrow> key_token False st t
         | WantKeyOrEnd \<Rightarrow> key_token True st t
         | WantColon \<Rightarrow> (case t of Colon \<Rightarrow> Some (WantValue, st) | _ \<Rightarrow> None)
         | AfterValue \<Rightarrow>
             (case t of
                Comma \<Rightarrow>
                  (case st of
                     InList xs # r \<Rightarrow> Some (WantValue, st)
                   | InDict kvs k # r \<Rightarrow> Some (WantKey, st)
                   | [] \<Rightarrow> None)
              | RBracket \<Rightarrow> close_list st
              | RBrace \<Rightarrow> close_dict st
              | _ \<Rightarrow> None)
         | Complete v \<Rightarrow> None))"

fun parse_loop :: "expect \<times> frame list \<Rightarrow> token list \<Rightarrow> (expect \<times> frame list) option" where
  "parse_loop pst [] = Some pst"
| "parse_loop pst (t # ts) =
     (case parse_step pst t of None \<Rightarrow> None | Some pst' \<Rightarrow> parse_loop pst' ts)"

definition json_loads :: "pystr \<Rightarrow> pyerror + pyval" where
  "json_loads s =
     (case tokenize s of
        None \<Rightarrow> Inl JSONDecodeError
      | Some ts \<Rightarrow>
          (case parse_loop (WantValue, []) ts of
             Some (Complete v, st) \<Rightarrow> Inr v
           | _ \<Rightarrow> Inl JSONDecodeError))"

section \<open>The world outside the program\<close>

text \<open>
  A file is the text \<^verbatim>\<open>read_text(encoding = "utf-8")\<close> returns for it, or bytes that
  are not UTF-8. The file system maps the paths of the existing files to their contents.
\<close>

datatype content = Text pystr | Undecodable

type_synonym filesystem = "pystr \<rightharpoonup> content"

text \<open>
  The state the program changes: the files, the argument vector of every
  \<^verbatim>\<open>subprocess.run\<close> in order, what the children wrote to the streams they inherited
  (standard output and standard error of each child), and the arguments of the
  program's own \<^verbatim>\<open>print\<close> calls.
\<close>

record world =
  files :: filesystem
  spawned :: "pystr list list"
  terminal :: "(pystr \<times> pystr) list"
  printed :: "pystr list"

text \<open>
  What a child process did: it could not be started, or it exited with a return code,
  having written two streams and left the files in some state.
\<close>

datatype outcome = NotStarted | Exited int pystr pystr filesystem

text \<open>
  What the program cannot decide: where the repository is (\<^verbatim>\<open>ROOT\<close>), the home
  directory, \<^verbatim>\<open>os.environ\<close>, the name \<^verbatim>\<open>tempfile\<close> picks, and what a child does when it is
  run with an argument vector, a working directory and an environment in a given world.
\<close>

record host =
  ROOT :: pystr
  HOME :: pystr
  environ :: "pystr \<rightharpoonup> pystr"
  mkstemp :: "world \<Rightarrow> pystr"
  spawn :: "pystr list \<Rightarrow> pystr option \<Rightarrow> (pystr \<rightharpoonup> pystr) \<Rightarrow> world \<Rightarrow> outcome"

text \<open>\<^verbatim>\<open>Path / name\<close> on an absolute path, and \<^verbatim>\<open>MEASURE_SCRIPT\<close>.\<close>

definition joinpath :: "pystr \<Rightarrow> pystr \<Rightarrow> pystr" where
  "joinpath p q = (if p = ascii ''/'' then p @ q else p @ ascii ''/'' @ q)"

definition MEASURE_SCRIPT :: "host \<Rightarrow> pystr" where
  "MEASURE_SCRIPT S = joinpath (joinpath (ROOT S) (ascii ''scripts'')) (ascii ''measure_memory.py'')"

text \<open>
  \<^verbatim>\<open>subprocess.run(args, cwd = ..., env = ..., check = True)\<close>, with or without
  \<^verbatim>\<open>stdout = PIPE, stderr = PIPE\<close>. A child that is not captured writes to the streams
  of the program; a captured one hands its streams to the caller, and a
  \<^verbatim>\<open>CalledProcessError\<close> carries them only then.
\<close>

definition subprocess_run ::
  "host \<Rightarrow> pystr list \<Rightarrow> pystr option \<Rightarrow> (pystr \<rightharpoonup> pystr) \<Rightarrow> bool \<Rightarrow> world
     \<Rightarrow> (pyerror + unit) \<times> world" where
  "subprocess_run S argv dir envmap capture w =
     (let w1 = w\<lparr>spawned := spawned w @ [argv]\<rparr>
      in case spawn S argv dir envmap w of
           NotStarted \<Rightarrow> (Inl OSError, w1)
         | Exited rc out err fs \<Rightarrow>
             let w2 = w1\<lparr>files := fs,
                        terminal := (if capture then terminal w1 else terminal w1 @ [(out, err)])\<rparr>
             in if rc \<noteq> 0
                then (Inl (CalledProcessError rc argv
                        (if capture then Some out else None)
                        (if capture then Some err else None)), w2)
                else (Inr (), w2))"

text \<open>
  \<^verbatim>\<open>tempfile.NamedTemporaryFile(delete = False)\<close> followed by \<^verbatim>\<open>close()\<close>: the file is
  created, empty, and stays.
\<close>

definition named_temporary_file :: "host \<Rightarrow> world \<Rightarrow> pystr \<times> world" where
  "named_temporary_file S w =
     (let p = mkstemp S w in (p, w\<lparr>files := (files w)(p \<mapsto> Text [])\<rparr>))"

text \<open>\<^verbatim>\<open>Path.exists\<close>, \<^verbatim>\<open>Path.read_text\<close> and \<^verbatim>\<open>Path.unlink(missing_ok = ...)\<close>.\<close>

definition path_exists :: "pystr \<Rightarrow> world \<Rightarrow> bool" where
  "path_exists p w = (files w p \<noteq> None)"

definition read_text :: "pystr \<Rightarrow> world \<Rightarrow> pyerror + pystr" where
  "read_text p w =
     (case files w p of
        None \<Rightarrow> Inl FileNotFoundError
      | Some Undecodable \<Rightarrow> Inl UnicodeDecodeError
      | Some (Text s) \<Rightarrow> Inr s)"

definition unlink :: "pystr \<Rightarrow> bool \<Rightarrow> world \<Rightarrow> (pyerror + unit) \<times> world" where
  "unlink p missing_ok w =
     (if files w p = None
      then (if missing_ok then (Inr (), w) else (Inl FileNotFoundError, w))
      else (Inr (), w\<lparr>files := (files w)(p := None)\<rparr>))"

section \<open>The build steps\<close>

text \<open>
  \<^verbatim>\<open>ensure_dotnet_built\<close>, the one build step \<^verbatim>\<open>main\<close> calls: the child is not
  captured and inherits the environment.
\<close>

definition dotnet_publish :: "pystr list" where
  "dotnet_publish =
     [ascii ''dotnet'', ascii ''publish'', ascii ''-c'', ascii ''Release'', ascii ''-r'',
      ascii ''linux-x64'', ascii ''--self-contained'', ascii ''true'']"

definition ensure_dotnet_built :: "host \<Rightarrow> world \<Rightarrow> (pyerror + unit) \<times> world" where
  "ensure_dotnet_built S w =
     subprocess_run S dotnet_publish
       (Some (joinpath (ROOT S) (ascii ''dotnet''))) (environ S) False w"

text \<open>
  \<^verbatim>\<open>ensure_rust_built\<close>, which \<^verbatim>\<open>main\<close> does not call: the only build step that
  captures the streams and turns a \<^verbatim>\<open>CalledProcessError\<close> into a \<^verbatim>\<open>RuntimeError\<close> whose
  message ends with \<^verbatim>\<open>exc.stderr or exc.stdout\<close>.
\<close>

definition stderr_or_stdout :: "pystr option \<Rightarrow> pystr option \<Rightarrow> pystr" where
  "stderr_or_stdout err out =
     (case err of
        Some e \<Rightarrow> if e \<noteq> [] then e else (case out of Some s \<Rightarrow> s | None \<Rightarrow> ascii ''None'')
      | None \<Rightarrow> (case out of Some s \<Rightarrow> s | None \<Rightarrow> ascii ''None''))"

definition ensure_rust_built :: "host \<Rightarrow> world \<Rightarrow> (pyerror + unit) \<times> world" where
  "ensure_rust_built S w =
     (let rust_dir = joinpath (ROOT S) (ascii ''rust'');
          cargo_bin = joinpath (joinpath (HOME S) (ascii ''.cargo'')) (ascii ''bin'');
          path = (case environ S (ascii ''PATH'') of None \<Rightarrow> [] | Some p \<Rightarrow> p);
          envmap = (environ S)(ascii ''PATH'' \<mapsto> cargo_bin @ ascii '':'' @ path)
      in case subprocess_run S [ascii ''cargo'', ascii ''build'', ascii ''--release'']
                (Some rust_dir) envmap True w of
           (Inl (CalledProcessError rc argv out err), w') \<Rightarrow>
             (Inl (RuntimeError
                (ascii ''cargo build --release '' @ [22833, 36133, 65306] @
                 stderr_or_stdout err out)), w')
         | r \<Rightarrow> r)"

section \<open>\<^verbatim>\<open>run_measurement\<close>\<close>

text \<open>
  The message of the \<^verbatim>\<open>RuntimeError\<close> raised when the result file does not exist: the
  f-string of the source, its Chinese text given by code points, with the target's name
  and the depth.
\<close>

definition missing_result_message :: "Target \<Rightarrow> int \<Rightarrow> pystr" where
  "missing_result_message target depth =
     [27979, 37327, 33050, 26412, 26410, 20889, 20837, 32467, 26524, 25991, 20214, 65292,
      35821, 35328, 61] @ name target @ [44, 32, 28145, 24230, 61] @ str_int depth"

text \<open>
  The local variables \<^verbatim>\<open>cmd\<close> and \<^verbatim>\<open>env\<close> of \<^verbatim>\<open>run_measurement\<close>: the argument vector of
  the measurement helper, and \<^verbatim>\<open>os.environ\<close> updated with the target's overrides.
\<close>

definition measurement_cmd :: "host \<Rightarrow> Target \<Rightarrow> int \<Rightarrow> pystr \<Rightarrow> pystr \<Rightarrow> pystr list" where
  "measurement_cmd S target depth python_exec json_file =
     [python_exec, MEASURE_SCRIPT S, ascii ''--cwd'', cwd target,
      ascii ''--json-file'', json_file, ascii ''--''] @ command target depth"

definition measurement_env :: "host \<Rightarrow> Target \<Rightarrow> (pystr \<rightharpoonup> pystr)" where
  "measurement_env S target =
     (case env target of None \<Rightarrow> environ S | Some overrides \<Rightarrow> environ S ++ overrides)"

definition run_measurement ::
  "host \<Rightarrow> Target \<Rightarrow> int \<Rightarrow> pystr \<Rightarrow> world \<Rightarrow> (pyerror + pyval) \<times> world" where
  "run_measurement S target depth python_exec w =
     (case named_temporary_file S w of (json_file, w1) \<Rightarrow>
        let cmd = measurement_cmd S target depth python_exec json_file;
            envmap = measurement_env S target
        in case subprocess_run S cmd None envmap False w1 of
             (Inl e, w2) \<Rightarrow> (Inl e, w2)
           | (Inr u, w2) \<Rightarrow>
               if \<not> path_exists json_file w2
               then (Inl (RuntimeError (missing_result_message target depth)), w2)
               else
                 (case read_text json_file w2 of
                    Inl e \<Rightarrow> (Inl e, w2)
                  | Inr text \<Rightarrow>
                      let raw = strip text
                      in case unlink json_file True w2 of
                           (Inl e, w3) \<Rightarrow> (Inl e, w3)
                         | (Inr u', w3) \<Rightarrow>
                             (case json_loads raw of
                                Inl e \<Rightarrow> (Inl e, w3)
                              | Inr data \<Rightarrow>
                                  (case setitem data (ascii ''language'') (PStr (name target)) of
                                     Inl e \<Rightarrow> (Inl e, w3)
                                   | Inr data1 \<Rightarrow>
                                       (case setitem data1 (ascii ''depth'') (PInt depth) of
                                          Inl e \<Rightarrow> (Inl e, w3)
                                        | Inr data2 \<Rightarrow> (Inr data2, w3))))))"

section \<open>\<^verbatim>\<open>format_table\<close>\<close>

text \<open>\<^verbatim>\<open>row[key]\<close> and \<^verbatim>\<open>len(cell)\<close> on any object.\<close>

definition getitem :: "pyval \<Rightarrow> pystr \<Rightarrow> pyerror + pyval" where
  "getitem obj k =
     (case obj of
        PDict kvs \<Rightarrow> (case dict_get kvs k of None \<Rightarrow> Inl (KeyError k) | Some v \<Rightarrow> Inr v)
      | _ \<Rightarrow> Inl TypeError)"

definition py_len :: "pyval \<Rightarrow> pyerror + nat" where
  "py_len v =
     (case v of
        PStr s \<Rightarrow> Inr (length s)
      | PList xs \<Rightarrow> Inr (length xs)
      | PDict kvs \<Rightarrow> Inr (length kvs)
      | _ \<Rightarrow> Inl TypeError)"

text \<open>The three header labels of the source, by code points (2, 3 and 11 of them).\<close>

definition headers :: "pystr list" where
  "headers =
     [[35821, 35328], [26641, 28145, 24230],
      [23792, 20540, 32, 82, 83, 83, 32, 40, 77, 66, 41]]"

text \<open>One element of the comprehension \<^verbatim>\<open>data_rows\<close>, evaluated left to right.\<close>

definition data_row :: "pyval \<Rightarrow> pyerror + pyval list" where
  "data_row row =
     (case getitem row (ascii ''language'') of
        Inl e \<Rightarrow> Inl e
      | Inr lang \<Rightarrow>
          (case getitem row (ascii ''depth'') of
             Inl e \<Rightarrow> Inl e
           | Inr d \<Rightarrow>
               (case format_str d of
                  Inl e \<Rightarrow> Inl e
                | Inr ds \<Rightarrow>
                    (case getitem row (ascii ''peak_mb'') of
                       Inl e \<Rightarrow> Inl e
                     | Inr p \<Rightarrow>
                         (case format_2f p of
                            Inl e \<Rightarrow> Inl e
                          | Inr ps \<Rightarrow> Inr [lang, PStr ds, PStr ps])))))"

fun data_rows_of :: "pyval list \<Rightarrow> pyerror + pyval list list" where
  "data_rows_of [] = Inr []"
| "data_rows_of (row # rows) =
     (case data_row row of
        Inl e \<Rightarrow> Inl e
      | Inr r \<Rightarrow> (case data_rows_of rows of Inl e \<Rightarrow> Inl e | Inr rs \<Rightarrow> Inr (r # rs)))"

text \<open>
  The inner loop \<^verbatim>\<open>for idx, cell in enumerate(row): widths[idx] = max(widths[idx], len(cell))\<close>
  and the loop over \<^verbatim>\<open>data_rows\<close> around it.
\<close>

fun widths_row :: "nat list \<Rightarrow> nat \<Rightarrow> pyval list \<Rightarrow> pyerror + nat list" where
  "widths_row widths idx [] = Inr widths"
| "widths_row widths idx (cell # cells) =
     (if length widths \<le> idx then Inl IndexError
      else case py_len cell of
        Inl e \<Rightarrow> Inl e
      | Inr n \<Rightarrow> widths_row (widths[idx := max (widths ! idx) n]) (Suc idx) cells)"

fun widths_loop :: "nat list \<Rightarrow> pyval list list \<Rightarrow> pyerror + nat list" where
  "widths_loop widths [] = Inr widths"
| "widths_loop widths (row # rows) =
     (case widths_row widths 0 row of
        Inl e \<Rightarrow> Inl e
      | Inr widths' \<Rightarrow> widths_loop widths' rows)"

text \<open>
  The local function \<^verbatim>\<open>fmt\<close>: every value left-justified to the width of its column,
  joined with \<^verbatim>\<open>" | "\<close>. In \<^verbatim>\<open>value.ljust(widths[i])\<close> the method is looked up first, so
  a value that is not a string raises \<^verbatim>\<open>AttributeError\<close> before \<^verbatim>\<open>widths[i]\<close> is read.
\<close>

fun fmt_cells :: "nat list \<Rightarrow> nat \<Rightarrow> pyval list \<Rightarrow> pyerror + pystr list" where
  "fmt_cells widths i [] = Inr []"
| "fmt_cells widths i (v # vs) =
     (case v of
        PStr s \<Rightarrow>
          (if length widths \<le> i then Inl IndexError
           else case fmt_cells widths (Suc i) vs of
             Inl e \<Rightarrow> Inl e
           | Inr cs \<Rightarrow> Inr (ljust s (widths ! i) # cs))
      | _ \<Rightarrow> Inl AttributeError)"

definition fmt :: "nat list \<Rightarrow> pyval list \<Rightarrow> pyerror + pystr" where
  "fmt widths vs =
     (case fmt_cells widths 0 vs of Inl e \<Rightarrow> Inl e | Inr cs \<Rightarrow> Inr (join (ascii '' | '') cs))"

fun fmt_rows :: "nat list \<Rightarrow> pyval list list \<Rightarrow> pyerror + pystr list" where
  "fmt_rows widths [] = Inr []"
| "fmt_rows widths (row # rows) =
     (case fmt widths row of
        Inl e \<Rightarrow> Inl e
      | Inr l \<Rightarrow> (case fmt_rows widths rows of Inl e \<Rightarrow> Inl e | Inr ls \<Rightarrow> Inr (l # ls)))"

text \<open>The list \<^verbatim>\<open>lines\<close> of \<^verbatim>\<open>format_table\<close>, and the table: the lines joined by newlines.\<close>

definition table_lines :: "pyval list \<Rightarrow> pyerror + pystr list" where
  "table_lines rows =
     (case data_rows_of rows of
        Inl e \<Rightarrow> Inl e
      | Inr data_rows \<Rightarrow>
          (case widths_loop (map length headers) data_rows of
             Inl e \<Rightarrow> Inl e
           | Inr widths \<Rightarrow>
               let separator = join (ascii ''-+-'') (map dashes widths)
               in case fmt widths (map PStr headers) of
                    Inl e \<Rightarrow> Inl e
                  | Inr head \<Rightarrow>
                      (case fmt_rows widths data_rows of
                         Inl e \<Rightarrow> Inl e
                       | Inr body \<Rightarrow> Inr ([head, separator] @ body))))"

definition format_table :: "pyval list \<Rightarrow> pyerror + pystr" where
  "format_table rows =
     (case table_lines rows of Inl e \<Rightarrow> Inl e | Inr ls \<Rightarrow> Inr (join [10] ls))"

section \<open>\<^verbatim>\<open>main\<close>\<close>

text \<open>The parsed arguments: \<^verbatim>\<open>args.depths\<close> and \<^verbatim>\<open>args.python\<close>.\<close>

record args =
  depths :: "int list"
  python :: pystr

text \<open>The list \<^verbatim>\<open>targets\<close> of \<^verbatim>\<open>main\<close>: every entry but \<^verbatim>\<open>.NET\<close> is commented out.\<close>

definition targets :: "host \<Rightarrow> Target list" where
  "targets S =
     [\<lparr>name = ascii ''.NET'', cwd = joinpath (ROOT S) (ascii ''dotnet''),
       template = [ascii ''./bin/Release/net10.0/linux-x64/publish/BinaryTrees'', ascii ''{n}''],
       env = None\<rparr>]"

text \<open>
  The nested loops of \<^verbatim>\<open>main\<close>: \<^verbatim>\<open>for depth in args.depths\<close> around
  \<^verbatim>\<open>for target in targets\<close>, appending every measurement to \<^verbatim>\<open>results\<close>. An exception
  leaves both loops.
\<close>

fun targets_loop ::
  "host \<Rightarrow> int \<Rightarrow> pystr \<Rightarrow> Target list \<Rightarrow> pyval list \<Rightarrow> world
     \<Rightarrow> (pyerror + pyval list) \<times> world" where
  "targets_loop S depth py [] results w = (Inr results, w)"
| "targets_loop S depth py (target # rest) results w =
     (case run_measurement S target depth py w of
        (Inl e, w') \<Rightarrow> (Inl e, w')
      | (Inr measurement, w') \<Rightarrow> targets_loop S depth py rest (results @ [measurement]) w')"

fun depths_loop ::
  "host \<Rightarrow> int list \<Rightarrow> pystr \<Rightarrow> Target list \<Rightarrow> pyval list \<Rightarrow> world
     \<Rightarrow> (pyerror + pyval list) \<times> world" where
  "depths_loop S [] py ts results w = (Inr results, w)"
| "depths_loop S (depth # rest) py ts results w =
     (case targets_loop S depth py ts results w of
        (Inl e, w') \<Rightarrow> (Inl e, w')
      | (Inr results', w') \<Rightarrow> depths_loop S rest py ts results' w')"

definition print_line :: "pystr \<Rightarrow> world \<Rightarrow> world" where
  "print_line s w = w\<lparr>printed := printed w @ [s]\<rparr>"

text \<open>
  \<^verbatim>\<open>main\<close> after \<^verbatim>\<open>parse_args\<close>: build, measure, print the table, return 0. The exits
  of \<^verbatim>\<open>argparse\<close> itself (a usage error, \<^verbatim>\<open>--help\<close>) happen before and are not part of
  this model.
\<close>

definition main :: "host \<Rightarrow> args \<Rightarrow> world \<Rightarrow> (pyerror + int) \<times> world" where
  "main S a w =
     (case ensure_dotnet_built S w of
        (Inl e, w1) \<Rightarrow> (Inl e, w1)
      | (Inr u, w1) \<Rightarrow>
          (case depths_loop S (depths a) (python a) (targets S) [] w1 of
             (Inl e, w2) \<Rightarrow> (Inl e, w2)
           | (Inr results, w2) \<Rightarrow>
               (case format_table results of
                  Inl e \<Rightarrow> (Inl e, w2)
                | Inr table \<Rightarrow> (Inr 0, print_line table w2))))"

text \<open>
  \<^verbatim>\<open>raise SystemExit(main())\<close>: the exit status is what \<^verbatim>\<open>main\<close> returns, and 1 when an
  exception leaves \<^verbatim>\<open>main\<close>.
\<close>

definition exit_status :: "pyerror + int \<Rightarrow> int" where
  "exit_status r = (case r of Inl e \<Rightarrow> 1 | Inr code \<Rightarrow> code)"

section \<open>The table as the specification words it\<close>

text \<open>
  The layout the specification describes, for a table of three columns given as rows
  of strings (the header row first): the width of a column is the maximum of the
  lengths of its cells, a row is its cells left-justified to the widths and joined with
  \<^verbatim>\<open>" | "\<close>, and the separator is one run of dashes per column, joined with \<^verbatim>\<open>"-+-"\<close>.
\<close>

definition column_width :: "pystr list list \<Rightarrow> nat \<Rightarrow> nat" where
  "column_width tbl j = foldr max (map (\<lambda>r. length (r ! j)) tbl) 0"

definition column_widths :: "pystr list list \<Rightarrow> nat list" where
  "column_widths tbl = map (column_width tbl) [0, 1, 2]"

definition spec_row :: "nat list \<Rightarrow> pystr list \<Rightarrow> pystr" where
  "spec_row ws r = join (ascii '' | '') (map (\<lambda>j. ljust (r ! j) (ws ! j)) [0, 1, 2])"

definition spec_separator :: "nat list \<Rightarrow> pystr" where
  "spec_separator ws = join (ascii ''-+-'') (map (\<lambda>j. replicate (ws ! j) 45) [0, 1, 2])"

text \<open>
  The row of the report for one result: the language label, the workload size as
  \<^verbatim>\<open>str\<close> gives it, and the peak memory with two decimals. There is none when a field is
  missing, when the language is not a string, when the peak memory cannot be formatted
  with \<^verbatim>\<open>.2f\<close>, or when the size is a float, a list or a dict (whose \<^verbatim>\<open>str\<close> this model
  does not follow).
\<close>

definition report_row :: "pyval \<Rightarrow> pystr list option" where
  "report_row row =
     (case getitem row (ascii ''language'') of
        Inr (PStr lang) \<Rightarrow>
          (case getitem row (ascii ''depth'') of
             Inr d \<Rightarrow>
               (case format_str d of
                  Inr ds \<Rightarrow>
                    (case getitem row (ascii ''peak_mb'') of
                       Inr p \<Rightarrow>
                         (case format_2f p of Inr ps \<Rightarrow> Some [lang, ds, ps] | Inl e \<Rightarrow> None)
                     | Inl e \<Rightarrow> None)
                | Inl e \<Rightarrow> None)
           | Inl e \<Rightarrow> None)
      | _ \<Rightarrow> None)"

section \<open>Example hosts\<close>

text \<open>
  Concrete inputs for the examples below: a repository at \<^verbatim>\<open>/repo\<close>, an empty
  environment, a fixed temporary name, and a child process given as a function of its
  argument vector and the world it starts in. \<open>dq s\<close> is the JSON string literal of an
  ASCII text \<open>s\<close>, that is \<open>s\<close> between two double quotes.
\<close>

definition dq :: "string \<Rightarrow> pystr" where
  "dq s = 34 # ascii s @ [34]"

definition example_host :: "(pystr list \<Rightarrow> world \<Rightarrow> outcome) \<Rightarrow> host" where
  "example_host child =
     \<lparr>ROOT = ascii ''/repo'', HOME = ascii ''/home/user'', environ = Map.empty,
      mkstemp = (\<lambda>w. ascii ''/tmp/tmpk3v9x1''),
      spawn = (\<lambda>argv dir envmap w. child argv w)\<rparr>"

text \<open>A child that exits with status 0 and touches no file.\<close>

definition exits_silently :: "pystr list \<Rightarrow> world \<Rightarrow> outcome" where
  "exits_silently argv w = Exited 0 [] [] (files w)"

text \<open>
  The build succeeds; the measurement helper writes \<open>txt\<close> to the path that follows
  \<^verbatim>\<open>--json-file\<close> (the sixth argument) and exits with status 0.
\<close>

definition writes_result :: "pystr \<Rightarrow> pystr list \<Rightarrow> world \<Rightarrow> outcome" where
  "writes_result txt argv w =
     (if hd argv = ascii ''dotnet'' then Exited 0 [] [] (files w)
      else Exited 0 [] [] ((files w)(argv ! 5 \<mapsto> Text txt)))"

text \<open>The build exits with status 1 after an error message on its standard error.\<close>

definition build_fails :: "pystr list \<Rightarrow> world \<Rightarrow> outcome" where
  "build_fails argv w =
     (if hd argv = ascii ''dotnet'' then Exited 1 [] (ascii ''error MSB1003'') (files w)
      else Exited 0 [] [] (files w))"

definition rust_target :: Target where
  "rust_target =
     \<lparr>name = ascii ''Rust'', cwd = ascii ''/repo/rust'',
      template = [ascii ''./target/release/rust'', ascii ''{n}''], env = None\<rparr>"

definition go_target :: Target where
  "go_target =
     \<lparr>name = ascii ''Go'', cwd = ascii ''/repo/go'',
      template = [ascii ''./binarytrees'', ascii ''{n}''],
      env = Some [ascii ''GOCACHE'' \<mapsto> ascii ''/repo/go/.gocache'']\<rparr>"

definition empty_world :: world where
  "empty_world = \<lparr>files = Map.empty, spawned = [], terminal = [], printed = []\<rparr>"

section \<open>Properties of \<^verbatim>\<open>Target.command\<close>\<close>

lemma digits_of_are_digits: "c \<in> set (digits_of n) \<Longrightarrow> 48 \<le> c \<and> c \<le> 57"
proof (induction n rule: digits_of.induct)
  case (1 n)
  show ?case
  proof (cases "n < 10")
    case True
    with "1.prems" show ?thesis by (simp add: digits_of.simps [of n])
  next
    case False
    with "1.prems" have "c \<in> set (digits_of (n div 10)) \<or> c = 48 + n mod 10"
      by (auto simp: digits_of.simps [of n])
    then show ?thesis
    proof
      assume "c \<in> set (digits_of (n div 10))"
      with "1.IH" False show ?thesis by simp
    next
      assume c: "c = 48 + n mod 10"
      have "n mod 10 < 10" by simp
      with c show ?thesis by linarith
    qed
  qed
qed

lemma decimal_nat_snoc: "decimal_nat (s @ [c]) = 10 * decimal_nat s + (c - 48)"
  by (simp add: decimal_nat_def)

lemma decimal_nat_digits_of: "decimal_nat (digits_of n) = n"
proof (induction n rule: digits_of.induct)
  case (1 n)
  show ?case
  proof (cases "n < 10")
    case True
    then show ?thesis by (simp add: digits_of.simps [of n] decimal_nat_def)
  next
    case False
    with "1.IH" have "decimal_nat (digits_of (n div 10)) = n div 10" by simp
    with False show ?thesis
      by (simp add: digits_of.simps [of n] decimal_nat_snoc)
  qed
qed

lemma digits_of_nonempty: "digits_of n \<noteq> []"
  by (simp add: digits_of.simps [of n])

lemma hd_digits_of_not_minus: "hd (digits_of n) \<noteq> 45"
proof -
  have "hd (digits_of n) \<in> set (digits_of n)"
    using digits_of_nonempty by simp
  then have "48 \<le> hd (digits_of n)"
    using digits_of_are_digits by blast
  then show ?thesis by simp
qed

lemma decimal_int_str_int: "decimal_int (str_int i) = i"
proof (cases "i < 0")
  case True
  then show ?thesis
    by (simp add: decimal_int_def str_int_def ascii_def decimal_nat_digits_of)
next
  case False
  obtain c cs where d: "digits_of (nat i) = c # cs"
    using digits_of_nonempty [of "nat i"] by (cases "digits_of (nat i)") auto
  have "c \<noteq> 45"
    using hd_digits_of_not_minus [of "nat i"] d by simp
  moreover have "decimal_nat (c # cs) = nat i"
    using decimal_nat_digits_of [of "nat i"] d by simp
  ultimately show ?thesis
    using False d by (simp add: decimal_int_def str_int_def)
qed

lemma command_loop_map:
  "command_loop ts depth cmd =
     cmd @ map (\<lambda>token. if token = ascii ''{n}'' then str_int depth else token) ts"
  by (induction ts arbitrary: cmd) simp_all

text \<open>
  Claim C2. For every target and every depth, \<^verbatim>\<open>command(depth)\<close> has as many tokens as
  the template, in the template's order: a token equal to the placeholder \<^verbatim>\<open>{n}\<close> is
  replaced by the decimal string of the depth (a string that reads back as the depth),
  and every other token is the template's token itself. This holds for zero, one or many
  placeholders.
\<close>

theorem command_substitutes_placeholder:
  "length (command t depth) = length (template t) \<and>
   (\<forall>i < length (template t).
      command t depth ! i =
        (if template t ! i = ascii ''{n}'' then str_int depth else template t ! i)) \<and>
   decimal_int (str_int depth) = depth"
  by (simp add: command_def command_loop_map decimal_int_str_int)

theorem command_substitutes_placeholder_witness:
  "command \<lparr>name = ascii ''Rust'', cwd = ascii ''/r/rust'',
      template = [ascii ''{n}'', ascii ''./target/release/rust'', ascii ''{n}'', ascii ''n''],
      env = None\<rparr> 16
   = [ascii ''16'', ascii ''./target/release/rust'', ascii ''16'', ascii ''n'']
   \<and> command \<lparr>name = ascii ''Rust'', cwd = ascii ''/r/rust'',
      template = [ascii ''{n}''], env = None\<rparr> (- 7) = [ascii ''-7'']
   \<and> decimal_int (ascii ''16'') = 16"
proof -
  have s16: "str_int 16 = ascii ''16''"
    by (simp add: str_int_def ascii_def digits_of.simps)
  have s7: "str_int (- 7) = ascii ''-7''"
    by (simp add: str_int_def ascii_def digits_of.simps)
  let ?t = "\<lparr>name = ascii ''Rust'', cwd = ascii ''/r/rust'',
      template = [ascii ''{n}'', ascii ''./target/release/rust'', ascii ''{n}'', ascii ''n''],
      env = None\<rparr>"
  let ?u = "\<lparr>name = ascii ''Rust'', cwd = ascii ''/r/rust'',
      template = [ascii ''{n}''], env = None\<rparr>"
  have a: "length (command ?t 16) = 4"
    using command_substitutes_placeholder [of ?t 16] by simp
  have b: "\<forall>i < 4. command ?t 16 ! i =
        (if template ?t ! i = ascii ''{n}'' then str_int 16 else template ?t ! i)"
    using command_substitutes_placeholder [of ?t 16] by simp
  have b0: "command ?t 16 ! 0 = ascii ''16''" using b s16 by simp
  have b1: "command ?t 16 ! 1 = ascii ''./target/release/rust''"
    using b by (simp add: ascii_def)
  have b2: "command ?t 16 ! 2 = ascii ''16''" using b s16 by simp
  have b3: "command ?t 16 ! 3 = ascii ''n''" using b by (simp add: ascii_def)
  have c: "command ?t 16 = [ascii ''16'', ascii ''./target/release/rust'', ascii ''16'', ascii ''n'']"
    using a b0 b1 b2 b3 by (intro nth_equalityI) (auto simp: less_Suc_eq numeral_eq_Suc)
  have d: "length (command ?u (- 7)) = 1"
    using command_substitutes_placeholder [of ?u "- 7"] by simp
  have e: "command ?u (- 7) ! 0 = ascii ''-7''"
    using command_substitutes_placeholder [of ?u "- 7"] s7 by simp
  have f: "command ?u (- 7) = [ascii ''-7'']"
    using d e by (intro nth_equalityI) auto
  have g: "decimal_int (ascii ''16'') = 16"
    using command_substitutes_placeholder [of ?u 16] s16 by simp
  show ?thesis using c f g by simp
qed


section \<open>Dictionaries\<close>

lemma dict_get_set: "dict_get (dict_set kvs k v) k' = (if k' = k then Some v else dict_get kvs k')"
  by (induction kvs) auto

lemma getitem_decorated:
  "getitem (PDict (dict_set (dict_set kvs k1 v1) k2 v2)) k =
     (if k = k2 then Inr v2 else if k = k1 then Inr v1 else getitem (PDict kvs) k)"
  by (simp add: getitem_def dict_get_set)

lemma language_neq_depth: "ascii ''language'' \<noteq> ascii ''depth''"
  by (simp add: ascii_def)

lemma peak_mb_neq: "ascii ''peak_mb'' \<noteq> ascii ''language'' \<and> ascii ''peak_mb'' \<noteq> ascii ''depth''"
  by (simp add: ascii_def)

section \<open>The decoder\<close>

lemma json_loads_error: "json_loads s = Inl e \<Longrightarrow> e = JSONDecodeError"
  by (auto simp: json_loads_def split: option.splits expect.splits prod.splits)

lemma json_loads_empty: "json_loads [] = Inl JSONDecodeError"
  by (simp add: json_loads_def tokenize_def)

lemma strip_empty: "strip [] = []"
  by (simp add: strip_def)

section \<open>One measurement\<close>

lemma setitem_twice:
  "(case setitem data k1 v1 of Inl e \<Rightarrow> (Inl e, w)
    | Inr d1 \<Rightarrow> (case setitem d1 k2 v2 of Inl e \<Rightarrow> (Inl e, w) | Inr d2 \<Rightarrow> (Inr d2, w)))
   = (case data of PDict kvs \<Rightarrow> (Inr (PDict (dict_set (dict_set kvs k1 v1) k2 v2)), w)
      | _ \<Rightarrow> (Inl TypeError, w))"
  by (cases data) (simp_all add: setitem_def)

lemma run_measurement_exited:
  assumes "spawn S (measurement_cmd S t d py (mkstemp S w)) None (measurement_env S t)
             (snd (named_temporary_file S w)) = Exited rc out err fs"
  shows "run_measurement S t d py w =
     (let cmd = measurement_cmd S t d py (mkstemp S w);
          w2 = w\<lparr>files := fs, spawned := spawned w @ [cmd],
                 terminal := terminal w @ [(out, err)]\<rparr>;
          w3 = w\<lparr>files := fs(mkstemp S w := None), spawned := spawned w @ [cmd],
                 terminal := terminal w @ [(out, err)]\<rparr>
      in if rc \<noteq> 0 then (Inl (CalledProcessError rc cmd None None), w2)
         else case fs (mkstemp S w) of
           None \<Rightarrow> (Inl (RuntimeError (missing_result_message t d)), w2)
         | Some Undecodable \<Rightarrow> (Inl UnicodeDecodeError, w2)
         | Some (Text txt) \<Rightarrow>
             (case json_loads (strip txt) of
                Inl e \<Rightarrow> (Inl e, w3)
              | Inr data \<Rightarrow>
                  (case data of
                     PDict kvs \<Rightarrow>
                       (Inr (PDict (dict_set (dict_set kvs (ascii ''language'') (PStr (name t)))
                                      (ascii ''depth'') (PInt d))), w3)
                   | _ \<Rightarrow> (Inl TypeError, w3))))"
  using assms
  unfolding run_measurement_def setitem_twice
  by (simp add: named_temporary_file_def subprocess_run_def Let_def path_exists_def
        read_text_def unlink_def split: option.splits content.splits sum.splits pyval.splits)

lemma run_measurement_not_started:
  assumes "spawn S (measurement_cmd S t d py (mkstemp S w)) None (measurement_env S t)
             (snd (named_temporary_file S w)) = NotStarted"
  shows "run_measurement S t d py w =
     (Inl OSError, w\<lparr>files := (files w)(mkstemp S w \<mapsto> Text []),
         spawned := spawned w @ [measurement_cmd S t d py (mkstemp S w)]\<rparr>)"
  using assms
  unfolding run_measurement_def
  by (simp add: named_temporary_file_def subprocess_run_def Let_def)

text \<open>What a successful measurement was made of.\<close>

lemma run_measurement_success:
  assumes "fst (run_measurement S t d py w) = Inr r"
  shows "\<exists>out err fs txt kvs.
           spawn S (measurement_cmd S t d py (mkstemp S w)) None (measurement_env S t)
             (snd (named_temporary_file S w)) = Exited 0 out err fs \<and>
           fs (mkstemp S w) = Some (Text txt) \<and>
           json_loads (strip txt) = Inr (PDict kvs) \<and>
           r = PDict (dict_set (dict_set kvs (ascii ''language'') (PStr (name t)))
                        (ascii ''depth'') (PInt d)) \<and>
           snd (run_measurement S t d py w) =
             w\<lparr>files := fs(mkstemp S w := None),
               spawned := spawned w @ [measurement_cmd S t d py (mkstemp S w)],
               terminal := terminal w @ [(out, err)]\<rparr>"
proof (cases "spawn S (measurement_cmd S t d py (mkstemp S w)) None (measurement_env S t)
             (snd (named_temporary_file S w))")
  case NotStarted
  from run_measurement_not_started [OF this] assms show ?thesis by simp
next
  case (Exited rc out err fs)
  from run_measurement_exited [OF this] assms show ?thesis
    using Exited
    by (auto simp: Let_def split: if_splits option.splits content.splits sum.splits pyval.splits)
qed


lemma run_measurement_decorated:
  assumes "fst (run_measurement S t d py w) = Inr r"
  shows "getitem r (ascii ''language'') = Inr (PStr (name t)) \<and>
         getitem r (ascii ''depth'') = Inr (PInt d)"
proof -
  from run_measurement_success [OF assms] obtain kvs where
    "r = PDict (dict_set (dict_set kvs (ascii ''language'') (PStr (name t)))
                        (ascii ''depth'') (PInt d))" by blast
  then show ?thesis
    using language_neq_depth by (simp add: getitem_decorated)
qed

text \<open>The helper left the files as they were: the decoder is given the empty text.\<close>

lemma run_measurement_nothing_written:
  assumes "spawn S (measurement_cmd S t d py (mkstemp S w)) None (measurement_env S t)
             (snd (named_temporary_file S w))
           = Exited 0 out err (files (snd (named_temporary_file S w)))"
  shows "fst (run_measurement S t d py w) = Inl JSONDecodeError"
  using run_measurement_exited [OF assms]
  by (simp add: Let_def named_temporary_file_def strip_empty json_loads_empty)

text \<open>The helper removed the file: this is the one way to the \<^verbatim>\<open>RuntimeError\<close>.\<close>

lemma run_measurement_file_absent:
  assumes "spawn S (measurement_cmd S t d py (mkstemp S w)) None (measurement_env S t)
             (snd (named_temporary_file S w)) = Exited 0 out err fs"
      and "fs (mkstemp S w) = None"
  shows "fst (run_measurement S t d py w) = Inl (RuntimeError (missing_result_message t d))"
  using run_measurement_exited [OF assms(1)] assms(2)
  by (simp add: Let_def)

lemma run_measurement_runtime_error_iff:
  "fst (run_measurement S t d py w) = Inl (RuntimeError m) \<Longrightarrow>
     \<exists>out err fs. spawn S (measurement_cmd S t d py (mkstemp S w)) None (measurement_env S t)
             (snd (named_temporary_file S w)) = Exited 0 out err fs \<and> fs (mkstemp S w) = None"
proof (cases "spawn S (measurement_cmd S t d py (mkstemp S w)) None (measurement_env S t)
             (snd (named_temporary_file S w))")
  case NotStarted
  assume "fst (run_measurement S t d py w) = Inl (RuntimeError m)"
  with run_measurement_not_started [OF NotStarted] show ?thesis by simp
next
  case (Exited rc out err fs)
  assume a: "fst (run_measurement S t d py w) = Inl (RuntimeError m)"
  show ?thesis
  proof (cases "json_loads (strip (case fs (mkstemp S w) of Some (Text x) \<Rightarrow> x | _ \<Rightarrow> []))")
    case (Inl e)
    with a run_measurement_exited [OF Exited] Exited json_loads_error [OF Inl] show ?thesis
      by (auto simp: Let_def split: if_splits option.splits content.splits)
  next
    case (Inr v)
    with a run_measurement_exited [OF Exited] Exited show ?thesis
      by (auto simp: Let_def split: if_splits option.splits content.splits pyval.splits)
  qed
qed


section \<open>Evaluating the example hosts\<close>

lemma example_host_simps:
  "spawn (example_host child) argv dir envmap w = child argv w"
  "mkstemp (example_host child) w = ascii ''/tmp/tmpk3v9x1''"
  "ROOT (example_host child) = ascii ''/repo''"
  "environ (example_host child) = Map.empty"
  by (simp_all add: example_host_def)

lemma measurement_cmd_nth:
  "hd (measurement_cmd S t d py p) = py" "measurement_cmd S t d py p ! 5 = p"
  by (simp_all add: measurement_cmd_def)

lemma python3_not_dotnet: "ascii ''python3'' \<noteq> ascii ''dotnet''"
  by (simp add: ascii_def)

lemma run_measurement_example:
  assumes "json_loads (strip txt) = Inr (PDict kvs)" and "py \<noteq> ascii ''dotnet''"
  shows "run_measurement (example_host (writes_result txt)) t d py w =
     (Inr (PDict (dict_set (dict_set kvs (ascii ''language'') (PStr (name t)))
                    (ascii ''depth'') (PInt d))),
      w\<lparr>files := (files w)(ascii ''/tmp/tmpk3v9x1'' := None),
        spawned := spawned w @
          [measurement_cmd (example_host (writes_result txt)) t d py (ascii ''/tmp/tmpk3v9x1'')],
        terminal := terminal w @ [([], [])]\<rparr>)"
proof -
  let ?S = "example_host (writes_result txt)"
  let ?p = "ascii ''/tmp/tmpk3v9x1''"
  have sp: "spawn ?S (measurement_cmd ?S t d py (mkstemp ?S w)) None (measurement_env ?S t)
             (snd (named_temporary_file ?S w))
            = Exited 0 [] [] ((files w)(?p \<mapsto> Text txt))"
    using assms(2)
    by (simp add: example_host_simps writes_result_def measurement_cmd_nth
          named_temporary_file_def Let_def)
  show ?thesis
    using run_measurement_exited [OF sp] assms(1)
    by (simp add: Let_def example_host_simps)
qed

lemmas lex_defs = tokenize_def json_ws_def punct_def simple_escape_def hex_digit_def
lemmas parse_defs = parse_step_def value_token_def key_token_def deliver_def close_list_def
  close_dict_def

lemma float_123_45: "float_of_decimal False 12345 (- 2) = Finite False 8687021468732621 (- 46)"
proof -
  have b1: "bitlen 12345 = 14" by (simp add: bitlen.simps)
  have b2: "bitlen 100 = 7" by (simp add: bitlen.simps)
  have f: "floor_log2 12345 100 = 6" by (simp add: floor_log2_def b1 b2)
  show ?thesis
    by (simp add: float_of_decimal_def round_to_double_def f rhe_div_def Let_def)
qed

lemma loads_peak_only:
  "json_loads (strip (ascii ''{'' @ dq ''peak_mb'' @ ascii '': 123.45}''))
   = Inr (PDict [(ascii ''peak_mb'', PFloat (Finite False 8687021468732621 (- 46)))])"
proof -
  have s: "strip (ascii ''{'' @ dq ''peak_mb'' @ ascii '': 123.45}'')
             = ascii ''{'' @ dq ''peak_mb'' @ ascii '': 123.45}''"
    by (simp add: strip_def isspace_def dq_def ascii_def)
  have t: "tokenize (ascii ''{'' @ dq ''peak_mb'' @ ascii '': 123.45}'')
     = Some [LBrace, TString (ascii ''peak_mb''), Colon, TAtom (ascii ''123.45''), RBrace]"
    by (simp add: lex_defs dq_def ascii_def)
  have n: "parse_number (ascii ''123.45'') = Some (PFloat (float_of_decimal False 12345 (- 2)))"
    by (simp add: parse_number_def ascii_def is_digit_def decimal_nat_def Let_def)
  have a: "atom_value (ascii ''123.45'') = Some (PFloat (Finite False 8687021468732621 (- 46)))"
    using n float_123_45 by (simp add: atom_value_def ascii_def)
  show ?thesis
    unfolding s by (simp add: json_loads_def t a parse_defs)
qed




lemma loads_with_language:
  "json_loads (strip (ascii ''{'' @ dq ''language'' @ ascii '': '' @ dq ''X'' @ ascii '', '' @
       dq ''depth'' @ ascii '': 1, '' @ dq ''peak_mb'' @ ascii '': 7, '' @
       dq ''extra'' @ ascii '': true}'' @ [10]))
   = Inr (PDict [(ascii ''language'', PStr (ascii ''X'')), (ascii ''depth'', PInt 1),
                 (ascii ''peak_mb'', PInt 7), (ascii ''extra'', PBool True)])"
proof -
  let ?txt = "ascii ''{'' @ dq ''language'' @ ascii '': '' @ dq ''X'' @ ascii '', '' @
       dq ''depth'' @ ascii '': 1, '' @ dq ''peak_mb'' @ ascii '': 7, '' @
       dq ''extra'' @ ascii '': true}''"
  have s: "strip (ascii ''{'' @ dq ''language'' @ ascii '': '' @ dq ''X'' @ ascii '', '' @
       dq ''depth'' @ ascii '': 1, '' @ dq ''peak_mb'' @ ascii '': 7, '' @
       dq ''extra'' @ ascii '': true}'' @ [10]) = ?txt"
    by (simp add: strip_def isspace_def dq_def ascii_def)
  have t: "tokenize ?txt
     = Some [LBrace, TString (ascii ''language''), Colon, TString (ascii ''X''), Comma,
             TString (ascii ''depth''), Colon, TAtom (ascii ''1''), Comma,
             TString (ascii ''peak_mb''), Colon, TAtom (ascii ''7''), Comma,
             TString (ascii ''extra''), Colon, TAtom (ascii ''true''), RBrace]"
    by (simp add: lex_defs dq_def ascii_def)
  have a1: "atom_value (ascii ''1'') = Some (PInt 1)"
    by (simp add: atom_value_def parse_number_def ascii_def is_digit_def decimal_nat_def Let_def)
  have a7: "atom_value (ascii ''7'') = Some (PInt 7)"
    by (simp add: atom_value_def parse_number_def ascii_def is_digit_def decimal_nat_def Let_def)
  have at: "atom_value (ascii ''true'') = Some (PBool True)"
    by (simp add: atom_value_def ascii_def)
  have ks: "ascii ''language'' \<noteq> ascii ''depth''" "ascii ''language'' \<noteq> ascii ''peak_mb''"
    "ascii ''language'' \<noteq> ascii ''extra''" "ascii ''depth'' \<noteq> ascii ''peak_mb''"
    "ascii ''depth'' \<noteq> ascii ''extra''" "ascii ''peak_mb'' \<noteq> ascii ''extra''"
    by (simp_all add: ascii_def)
  show ?thesis
    unfolding s by (simp add: json_loads_def t a1 a7 at parse_defs ks)
qed

section \<open>Claims about one measurement\<close>

text \<open>
  Claim C1 says that a helper which exits with status 0 without writing the result
  file makes \<^verbatim>\<open>run_measurement\<close> fail with the \<^verbatim>\<open>RuntimeError\<close> for the missing result file.
  The temporary file is created before the helper runs, so the check
  \<^verbatim>\<open>json_file.exists()\<close> holds for such a helper: the empty file is read and the decoder
  raises \<^verbatim>\<open>JSONDecodeError\<close> instead. No result is returned.
\<close>

theorem missing_result_not_detected:
  "fst (run_measurement (example_host exits_silently) rust_target 16 (ascii ''python3'')
          empty_world) = Inl JSONDecodeError"
proof -
  let ?S = "example_host exits_silently"
  have "spawn ?S (measurement_cmd ?S rust_target 16 (ascii ''python3'') (mkstemp ?S empty_world))
          None (measurement_env ?S rust_target) (snd (named_temporary_file ?S empty_world))
        = Exited 0 [] [] (files (snd (named_temporary_file ?S empty_world)))"
    by (simp add: example_host_simps exits_silently_def)
  from run_measurement_nothing_written [OF this] show ?thesis .
qed

text \<open>
  Claim C8. A successful measurement returns the object the helper wrote, decoded, with
  \<^verbatim>\<open>language\<close> set to the target's name and \<^verbatim>\<open>depth\<close> to the requested depth; the value
  under \<^verbatim>\<open>peak_mb\<close> is the decoded one. For the helper output \<^verbatim>\<open>{"peak_mb": 123.45}\<close>,
  target Rust and depth 16 the record holds the float 123.45, \<^verbatim>\<open>"Rust"\<close> and 16.
\<close>

theorem run_measurement_decorates_result:
  assumes "fst (run_measurement S t d py w) = Inr r"
  shows "\<exists>out err fs txt kvs.
           spawn S (measurement_cmd S t d py (mkstemp S w)) None (measurement_env S t)
             (snd (named_temporary_file S w)) = Exited 0 out err fs \<and>
           fs (mkstemp S w) = Some (Text txt) \<and>
           json_loads (strip txt) = Inr (PDict kvs) \<and>
           getitem r (ascii ''language'') = Inr (PStr (name t)) \<and>
           getitem r (ascii ''depth'') = Inr (PInt d) \<and>
           getitem r (ascii ''peak_mb'') = getitem (PDict kvs) (ascii ''peak_mb'')"
proof -
  from run_measurement_success [OF assms] obtain out err fs tx kvs where
    h: "spawn S (measurement_cmd S t d py (mkstemp S w)) None (measurement_env S t)
             (snd (named_temporary_file S w)) = Exited 0 out err fs"
       "fs (mkstemp S w) = Some (Text tx)"
       "json_loads (strip tx) = Inr (PDict kvs)"
       "r = PDict (dict_set (dict_set kvs (ascii ''language'') (PStr (name t)))
                        (ascii ''depth'') (PInt d))"
    by blast
  have "getitem r (ascii ''peak_mb'') = getitem (PDict kvs) (ascii ''peak_mb'')"
    using h(4) peak_mb_neq by (simp add: getitem_decorated)
  moreover have "getitem r (ascii ''language'') = Inr (PStr (name t))"
    using h(4) language_neq_depth by (simp add: getitem_decorated)
  moreover have "getitem r (ascii ''depth'') = Inr (PInt d)"
    using h(4) by (simp add: getitem_decorated)
  ultimately show ?thesis using h(1-3) by blast
qed


lemma example_spawn_writes:
  assumes "py \<noteq> ascii ''dotnet''"
  shows "spawn (example_host (writes_result body))
           (measurement_cmd (example_host (writes_result body)) t d py
              (mkstemp (example_host (writes_result body)) w))
           None (measurement_env (example_host (writes_result body)) t)
           (snd (named_temporary_file (example_host (writes_result body)) w))
         = Exited 0 [] [] ((files w)(ascii ''/tmp/tmpk3v9x1'' \<mapsto> Text body))"
  using assms
  by (simp add: example_host_simps writes_result_def measurement_cmd_nth
        named_temporary_file_def Let_def)

theorem run_measurement_decorates_result_witness:
  "fst (run_measurement
          (example_host (writes_result (ascii ''{'' @ dq ''peak_mb'' @ ascii '': 123.45}'')))
          rust_target 16 (ascii ''python3'') empty_world)
     = Inr (PDict [(ascii ''peak_mb'', PFloat (Finite False 8687021468732621 (- 46))),
                   (ascii ''language'', PStr (ascii ''Rust'')),
                   (ascii ''depth'', PInt 16)]) \<and>
   getitem (PDict [(ascii ''peak_mb'', PFloat (Finite False 8687021468732621 (- 46))),
                   (ascii ''language'', PStr (ascii ''Rust'')),
                   (ascii ''depth'', PInt 16)]) (ascii ''peak_mb'')
     = Inr (PFloat (float_of_decimal False 12345 (- 2))) \<and>
   getitem (PDict [(ascii ''peak_mb'', PFloat (Finite False 8687021468732621 (- 46))),
                   (ascii ''language'', PStr (ascii ''Rust'')),
                   (ascii ''depth'', PInt 16)]) (ascii ''language'')
     = Inr (PStr (ascii ''Rust'')) \<and>
   getitem (PDict [(ascii ''peak_mb'', PFloat (Finite False 8687021468732621 (- 46))),
                   (ascii ''language'', PStr (ascii ''Rust'')),
                   (ascii ''depth'', PInt 16)]) (ascii ''depth'')
     = Inr (PInt 16)"
proof -
  let ?body = "ascii ''{'' @ dq ''peak_mb'' @ ascii '': 123.45}''"
  let ?S = "example_host (writes_result ?body)"
  let ?R = "PDict [(ascii ''peak_mb'', PFloat (Finite False 8687021468732621 (- 46))),
                   (ascii ''language'', PStr (ascii ''Rust'')),
                   (ascii ''depth'', PInt 16)]"
  have run: "fst (run_measurement ?S rust_target 16 (ascii ''python3'') empty_world) = Inr ?R"
    using run_measurement_example [OF loads_peak_only python3_not_dotnet,
            of rust_target 16 empty_world] peak_mb_neq language_neq_depth
    by (simp add: rust_target_def)
  from run_measurement_decorates_result [OF run] obtain out err fs tx kvs where
    h: "spawn ?S (measurement_cmd ?S rust_target 16 (ascii ''python3'') (mkstemp ?S empty_world))
          None (measurement_env ?S rust_target) (snd (named_temporary_file ?S empty_world))
        = Exited 0 out err fs"
       "fs (mkstemp ?S empty_world) = Some (Text tx)"
       "json_loads (strip tx) = Inr (PDict kvs)"
       "getitem ?R (ascii ''language'') = Inr (PStr (name rust_target))"
       "getitem ?R (ascii ''depth'') = Inr (PInt 16)"
       "getitem ?R (ascii ''peak_mb'') = getitem (PDict kvs) (ascii ''peak_mb'')"
    by blast
  from h(1) example_spawn_writes [OF python3_not_dotnet, of ?body rust_target 16 empty_world]
  have "fs = (files empty_world)(ascii ''/tmp/tmpk3v9x1'' \<mapsto> Text ?body)" by simp
  with h(2) have "tx = ?body" by (simp add: example_host_simps)
  with h(3) loads_peak_only
  have "kvs = [(ascii ''peak_mb'', PFloat (Finite False 8687021468732621 (- 46)))]" by simp
  with h(6) have "getitem ?R (ascii ''peak_mb'')
                  = Inr (PFloat (float_of_decimal False 12345 (- 2)))"
    by (simp add: getitem_def float_123_45)
  with run h(4) h(5) show ?thesis by (simp add: rust_target_def)
qed

text \<open>
  Claim C10. Whatever the helper stored under \<^verbatim>\<open>"language"\<close> and \<^verbatim>\<open>"depth"\<close>, the result
  holds the target's name and the requested depth there, and every other key holds
  what the helper wrote.
\<close>

theorem run_measurement_overwrites_language_and_depth:
  assumes "fst (run_measurement S t d py w) = Inr r"
  shows "\<exists>out err fs txt kvs.
           spawn S (measurement_cmd S t d py (mkstemp S w)) None (measurement_env S t)
             (snd (named_temporary_file S w)) = Exited 0 out err fs \<and>
           fs (mkstemp S w) = Some (Text txt) \<and>
           json_loads (strip txt) = Inr (PDict kvs) \<and>
           getitem r (ascii ''language'') = Inr (PStr (name t)) \<and>
           getitem r (ascii ''depth'') = Inr (PInt d) \<and>
           (\<forall>k. k \<noteq> ascii ''language'' \<and> k \<noteq> ascii ''depth'' \<longrightarrow>
                 getitem r k = getitem (PDict kvs) k)"
proof -
  from run_measurement_success [OF assms] obtain out err fs tx kvs where
    h: "spawn S (measurement_cmd S t d py (mkstemp S w)) None (measurement_env S t)
             (snd (named_temporary_file S w)) = Exited 0 out err fs"
       "fs (mkstemp S w) = Some (Text tx)"
       "json_loads (strip tx) = Inr (PDict kvs)"
       "r = PDict (dict_set (dict_set kvs (ascii ''language'') (PStr (name t)))
                        (ascii ''depth'') (PInt d))"
    by blast
  have "\<forall>k. k \<noteq> ascii ''language'' \<and> k \<noteq> ascii ''depth'' \<longrightarrow>
                 getitem r k = getitem (PDict kvs) k"
    using h(4) by (simp add: getitem_decorated)
  moreover have "getitem r (ascii ''language'') = Inr (PStr (name t))"
    using h(4) language_neq_depth by (simp add: getitem_decorated)
  moreover have "getitem r (ascii ''depth'') = Inr (PInt d)"
    using h(4) by (simp add: getitem_decorated)
  ultimately show ?thesis using h(1-3) by blast
qed

theorem run_measurement_overwrites_language_and_depth_witness:
  "fst (run_measurement
          (example_host (writes_result
             (ascii ''{'' @ dq ''language'' @ ascii '': '' @ dq ''X'' @ ascii '', '' @
              dq ''depth'' @ ascii '': 1, '' @ dq ''peak_mb'' @ ascii '': 7, '' @
              dq ''extra'' @ ascii '': true}'' @ [10])))
          rust_target 16 (ascii ''python3'') empty_world)
     = Inr (PDict [(ascii ''language'', PStr (ascii ''Rust'')), (ascii ''depth'', PInt 16),
                   (ascii ''peak_mb'', PInt 7), (ascii ''extra'', PBool True)]) \<and>
   getitem (PDict [(ascii ''language'', PStr (ascii ''Rust'')), (ascii ''depth'', PInt 16),
                   (ascii ''peak_mb'', PInt 7), (ascii ''extra'', PBool True)]) (ascii ''extra'')
     = getitem (PDict [(ascii ''language'', PStr (ascii ''X'')), (ascii ''depth'', PInt 1),
                 (ascii ''peak_mb'', PInt 7), (ascii ''extra'', PBool True)]) (ascii ''extra'') \<and>
   getitem (PDict [(ascii ''language'', PStr (ascii ''Rust'')), (ascii ''depth'', PInt 16),
                   (ascii ''peak_mb'', PInt 7), (ascii ''extra'', PBool True)]) (ascii ''language'')
     = Inr (PStr (ascii ''Rust'')) \<and>
   getitem (PDict [(ascii ''language'', PStr (ascii ''Rust'')), (ascii ''depth'', PInt 16),
                   (ascii ''peak_mb'', PInt 7), (ascii ''extra'', PBool True)]) (ascii ''depth'')
     = Inr (PInt 16)"
proof -
  let ?body = "ascii ''{'' @ dq ''language'' @ ascii '': '' @ dq ''X'' @ ascii '', '' @
              dq ''depth'' @ ascii '': 1, '' @ dq ''peak_mb'' @ ascii '': 7, '' @
              dq ''extra'' @ ascii '': true}'' @ [10]"
  let ?S = "example_host (writes_result ?body)"
  let ?R = "PDict [(ascii ''language'', PStr (ascii ''Rust'')), (ascii ''depth'', PInt 16),
                   (ascii ''peak_mb'', PInt 7), (ascii ''extra'', PBool True)]"
  have run: "fst (run_measurement ?S rust_target 16 (ascii ''python3'') empty_world) = Inr ?R"
    using run_measurement_example [OF loads_with_language python3_not_dotnet,
            of rust_target 16 empty_world] language_neq_depth
    by (simp add: rust_target_def)
  from run_measurement_overwrites_language_and_depth [OF run] obtain out err fs tx kvs where
    h: "spawn ?S (measurement_cmd ?S rust_target 16 (ascii ''python3'') (mkstemp ?S empty_world))
          None (measurement_env ?S rust_target) (snd (named_temporary_file ?S empty_world))
        = Exited 0 out err fs"
       "fs (mkstemp ?S empty_world) = Some (Text tx)"
       "json_loads (strip tx) = Inr (PDict kvs)"
       "getitem ?R (ascii ''language'') = Inr (PStr (name rust_target))"
       "getitem ?R (ascii ''depth'') = Inr (PInt 16)"
       "\<forall>k. k \<noteq> ascii ''language'' \<and> k \<noteq> ascii ''depth'' \<longrightarrow>
              getitem ?R k = getitem (PDict kvs) k"
    by blast
  from h(1) example_spawn_writes [OF python3_not_dotnet, of ?body rust_target 16 empty_world]
  have "fs = (files empty_world)(ascii ''/tmp/tmpk3v9x1'' \<mapsto> Text ?body)" by simp
  with h(2) have "tx = ?body" by (simp add: example_host_simps)
  with h(3) loads_with_language
  have k: "kvs = [(ascii ''language'', PStr (ascii ''X'')), (ascii ''depth'', PInt 1),
                 (ascii ''peak_mb'', PInt 7), (ascii ''extra'', PBool True)]" by simp
  have "ascii ''extra'' \<noteq> ascii ''language'' \<and> ascii ''extra'' \<noteq> ascii ''depth''"
    by (simp add: ascii_def)
  with h(6) have "getitem ?R (ascii ''extra'') = getitem (PDict kvs) (ascii ''extra'')"
    by blast
  with k run h(4) h(5) show ?thesis by (simp add: rust_target_def)
qed

text \<open>
  Claim C9. After a successful measurement the temporary result file does not exist,
  and deleting it once more, as \<^verbatim>\<open>unlink(missing_ok = True)\<close> does, raises nothing and
  changes nothing.
\<close>

theorem temporary_file_removed_after_success:
  assumes "fst (run_measurement S t d py w) = Inr r"
  shows "\<not> path_exists (mkstemp S w) (snd (run_measurement S t d py w)) \<and>
         unlink (mkstemp S w) True (snd (run_measurement S t d py w))
           = (Inr (), snd (run_measurement S t d py w))"
proof -
  from run_measurement_success [OF assms] obtain out err fs where
    "snd (run_measurement S t d py w) =
             w\<lparr>files := fs(mkstemp S w := None),
               spawned := spawned w @ [measurement_cmd S t d py (mkstemp S w)],
               terminal := terminal w @ [(out, err)]\<rparr>"
    by blast
  then show ?thesis by (simp add: path_exists_def unlink_def)
qed

theorem temporary_file_removed_after_success_witness:
  "fst (run_measurement
          (example_host (writes_result (ascii ''{'' @ dq ''peak_mb'' @ ascii '': 123.45}'')))
          rust_target 16 (ascii ''python3'') empty_world)
     = Inr (PDict [(ascii ''peak_mb'', PFloat (Finite False 8687021468732621 (- 46))),
                   (ascii ''language'', PStr (ascii ''Rust'')),
                   (ascii ''depth'', PInt 16)]) \<and>
   \<not> path_exists (ascii ''/tmp/tmpk3v9x1'')
       (snd (run_measurement
          (example_host (writes_result (ascii ''{'' @ dq ''peak_mb'' @ ascii '': 123.45}'')))
          rust_target 16 (ascii ''python3'') empty_world)) \<and>
   fst (unlink (ascii ''/tmp/tmpk3v9x1'') True
       (snd (run_measurement
          (example_host (writes_result (ascii ''{'' @ dq ''peak_mb'' @ ascii '': 123.45}'')))
          rust_target 16 (ascii ''python3'') empty_world))) = Inr ()"
proof -
  let ?body = "ascii ''{'' @ dq ''peak_mb'' @ ascii '': 123.45}''"
  let ?S = "example_host (writes_result ?body)"
  let ?R = "PDict [(ascii ''peak_mb'', PFloat (Finite False 8687021468732621 (- 46))),
                   (ascii ''language'', PStr (ascii ''Rust'')),
                   (ascii ''depth'', PInt 16)]"
  have run: "fst (run_measurement ?S rust_target 16 (ascii ''python3'') empty_world) = Inr ?R"
    using run_measurement_example [OF loads_peak_only python3_not_dotnet,
            of rust_target 16 empty_world] peak_mb_neq language_neq_depth
    by (simp add: rust_target_def)
  from temporary_file_removed_after_success [OF run] run show ?thesis
    by (simp add: example_host_simps)
qed


section \<open>A result without \<^verbatim>\<open>peak_mb\<close>\<close>










section \<open>The loops of \<^verbatim>\<open>main\<close>\<close>

lemma targets_loop_results:
  "fst (targets_loop S d py ts acc w) = Inr rs \<Longrightarrow>
     \<exists>ms. rs = acc @ ms \<and>
       map (\<lambda>r. (getitem r (ascii ''depth''), getitem r (ascii ''language''))) ms
         = map (\<lambda>t. (Inr (PInt d), Inr (PStr (name t)))) ts"
proof (induction ts arbitrary: acc w)
  case Nil
  then show ?case by simp
next
  case (Cons t ts)
  obtain x w1 where rm: "run_measurement S t d py w = (x, w1)"
    by (cases "run_measurement S t d py w")
  show ?case
  proof (cases x)
    case (Inl e)
    with rm Cons.prems show ?thesis by simp
  next
    case (Inr m)
    with rm Cons.prems have "fst (targets_loop S d py ts (acc @ [m]) w1) = Inr rs" by simp
    from Cons.IH [OF this] obtain ms where
      ms: "rs = (acc @ [m]) @ ms"
          "map (\<lambda>r. (getitem r (ascii ''depth''), getitem r (ascii ''language''))) ms
             = map (\<lambda>t. (Inr (PInt d), Inr (PStr (name t)))) ts"
      by (elim exE conjE)
    from rm Inr have "fst (run_measurement S t d py w) = Inr m" by simp
    from run_measurement_decorated [OF this]
    have tg: "getitem m (ascii ''language'') = Inr (PStr (name t))"
             "getitem m (ascii ''depth'') = Inr (PInt d)"
      by simp_all
    have "rs = acc @ (m # ms)" using ms(1) by simp
    moreover have "map (\<lambda>r. (getitem r (ascii ''depth''), getitem r (ascii ''language'')))
                     (m # ms)
                   = map (\<lambda>t. (Inr (PInt d), Inr (PStr (name t)))) (t # ts)"
      using ms(2) tg by simp
    ultimately show ?thesis by (intro exI [of _ "m # ms"] conjI)
  qed
qed

lemma depths_loop_results:
  "fst (depths_loop S ds py ts acc w) = Inr rs \<Longrightarrow>
     \<exists>ms. rs = acc @ ms \<and>
       map (\<lambda>r. (getitem r (ascii ''depth''), getitem r (ascii ''language''))) ms
         = concat (map (\<lambda>d. map (\<lambda>t. (Inr (PInt d), Inr (PStr (name t)))) ts) ds)"
proof (induction ds arbitrary: acc w)
  case Nil
  then show ?case by simp
next
  case (Cons d ds)
  obtain x w1 where tl: "targets_loop S d py ts acc w = (x, w1)"
    by (cases "targets_loop S d py ts acc w")
  show ?case
  proof (cases x)
    case (Inl e)
    with tl Cons.prems show ?thesis by simp
  next
    case (Inr rs1)
    with tl Cons.prems have "fst (depths_loop S ds py ts rs1 w1) = Inr rs" by simp
    from Cons.IH [OF this] obtain ms2 where
      ms2: "rs = rs1 @ ms2"
           "map (\<lambda>r. (getitem r (ascii ''depth''), getitem r (ascii ''language''))) ms2
              = concat (map (\<lambda>d. map (\<lambda>t. (Inr (PInt d), Inr (PStr (name t)))) ts) ds)"
      by (elim exE conjE)
    from tl Inr have "fst (targets_loop S d py ts acc w) = Inr rs1" by simp
    from targets_loop_results [OF this] obtain ms1 where
      ms1: "rs1 = acc @ ms1"
           "map (\<lambda>r. (getitem r (ascii ''depth''), getitem r (ascii ''language''))) ms1
              = map (\<lambda>t. (Inr (PInt d), Inr (PStr (name t)))) ts"
      by (elim exE conjE)
    have "rs = acc @ (ms1 @ ms2)" using ms1(1) ms2(1) by simp
    moreover have "map (\<lambda>r. (getitem r (ascii ''depth''), getitem r (ascii ''language'')))
                     (ms1 @ ms2)
         = concat (map (\<lambda>d. map (\<lambda>t. (Inr (PInt d), Inr (PStr (name t)))) ts) (d # ds))"
      using ms1(2) ms2(2) by simp
    ultimately show ?thesis by (intro exI [of _ "ms1 @ ms2"] conjI)
  qed
qed

lemma length_concat_product:
  "length (concat (map (\<lambda>d. map (g d) ts) ds)) = length ds * length ts"
  by (induction ds) simp_all

lemma depths_loop_tags:
  assumes "fst (depths_loop S ds py ts [] w) = Inr rs"
  shows "map (\<lambda>r. (getitem r (ascii ''depth''), getitem r (ascii ''language''))) rs
           = concat (map (\<lambda>d. map (\<lambda>t. (Inr (PInt d), Inr (PStr (name t)))) ts) ds)"
  using depths_loop_results [OF assms] by auto

lemma depths_loop_count:
  assumes "fst (depths_loop S ds py ts [] w) = Inr rs"
  shows "length rs = length ds * length ts"
proof -
  have "length rs
        = length (map (\<lambda>r. (getitem r (ascii ''depth''), getitem r (ascii ''language''))) rs)"
    by simp
  also have "\<dots> = length ds * length ts"
    unfolding depths_loop_tags [OF assms] by (rule length_concat_product)
  finally show ?thesis .
qed

text \<open>
  Claim C3. When every measurement succeeds, the result list read by (depth, language)
  is the list of the pairs (size, target name) with the sizes in the order given as the
  outer iteration and the targets in declaration order as the inner one: one result per
  pair, duplicates of a size included, nothing sorted.
\<close>

theorem results_ordered_by_size_then_target:
  assumes "fst (depths_loop S ds py ts [] w) = Inr rs"
  shows "map (\<lambda>r. (getitem r (ascii ''depth''), getitem r (ascii ''language''))) rs
           = concat (map (\<lambda>d. map (\<lambda>t. (Inr (PInt d), Inr (PStr (name t)))) ts) ds) \<and>
         length rs = length ds * length ts"
  using depths_loop_tags [OF assms] depths_loop_count [OF assms] by (rule conjI)

lemma measured:
  "run_measurement
     (example_host (writes_result (ascii ''{'' @ dq ''peak_mb'' @ ascii '': 123.45}''))) t d
     (ascii ''python3'') w =
     (Inr (PDict [(ascii ''peak_mb'', PFloat (Finite False 8687021468732621 (- 46))),
                  (ascii ''language'', PStr (name t)), (ascii ''depth'', PInt d)]),
      w\<lparr>files := (files w)(ascii ''/tmp/tmpk3v9x1'' := None),
        spawned := spawned w @
          [measurement_cmd
             (example_host (writes_result (ascii ''{'' @ dq ''peak_mb'' @ ascii '': 123.45}'')))
             t d (ascii ''python3'') (ascii ''/tmp/tmpk3v9x1'')],
        terminal := terminal w @ [([], [])]\<rparr>)"
  using run_measurement_example [OF loads_peak_only python3_not_dotnet, of t d w]
    peak_mb_neq language_neq_depth
  by simp

theorem results_ordered_by_size_then_target_witness:
  "fst (depths_loop
          (example_host (writes_result (ascii ''{'' @ dq ''peak_mb'' @ ascii '': 123.45}'')))
          [10, 16] (ascii ''python3'') [rust_target, go_target] [] empty_world)
     = Inr [PDict [(ascii ''peak_mb'', PFloat (Finite False 8687021468732621 (- 46))),
                   (ascii ''language'', PStr (ascii ''Rust'')), (ascii ''depth'', PInt 10)],
            PDict [(ascii ''peak_mb'', PFloat (Finite False 8687021468732621 (- 46))),
                   (ascii ''language'', PStr (ascii ''Go'')), (ascii ''depth'', PInt 10)],
            PDict [(ascii ''peak_mb'', PFloat (Finite False 8687021468732621 (- 46))),
                   (ascii ''language'', PStr (ascii ''Rust'')), (ascii ''depth'', PInt 16)],
            PDict [(ascii ''peak_mb'', PFloat (Finite False 8687021468732621 (- 46))),
                   (ascii ''language'', PStr (ascii ''Go'')), (ascii ''depth'', PInt 16)]] \<and>
   map (\<lambda>r. (getitem r (ascii ''depth''), getitem r (ascii ''language'')))
     [PDict [(ascii ''peak_mb'', PFloat (Finite False 8687021468732621 (- 46))),
                   (ascii ''language'', PStr (ascii ''Rust'')), (ascii ''depth'', PInt 10)],
            PDict [(ascii ''peak_mb'', PFloat (Finite False 8687021468732621 (- 46))),
                   (ascii ''language'', PStr (ascii ''Go'')), (ascii ''depth'', PInt 10)],
            PDict [(ascii ''peak_mb'', PFloat (Finite False 8687021468732621 (- 46))),
                   (ascii ''language'', PStr (ascii ''Rust'')), (ascii ''depth'', PInt 16)],
            PDict [(ascii ''peak_mb'', PFloat (Finite False 8687021468732621 (- 46))),
                   (ascii ''language'', PStr (ascii ''Go'')), (ascii ''depth'', PInt 16)]]
     = [(Inr (PInt 10), Inr (PStr (ascii ''Rust''))), (Inr (PInt 10), Inr (PStr (ascii ''Go''))),
        (Inr (PInt 16), Inr (PStr (ascii ''Rust''))), (Inr (PInt 16), Inr (PStr (ascii ''Go'')))]"
proof -
  have run: "fst (depths_loop
          (example_host (writes_result (ascii ''{'' @ dq ''peak_mb'' @ ascii '': 123.45}'')))
          [10, 16] (ascii ''python3'') [rust_target, go_target] [] empty_world)
     = Inr [PDict [(ascii ''peak_mb'', PFloat (Finite False 8687021468732621 (- 46))),
                   (ascii ''language'', PStr (ascii ''Rust'')), (ascii ''depth'', PInt 10)],
            PDict [(ascii ''peak_mb'', PFloat (Finite False 8687021468732621 (- 46))),
                   (ascii ''language'', PStr (ascii ''Go'')), (ascii ''depth'', PInt 10)],
            PDict [(ascii ''peak_mb'', PFloat (Finite False 8687021468732621 (- 46))),
                   (ascii ''language'', PStr (ascii ''Rust'')), (ascii ''depth'', PInt 16)],
            PDict [(ascii ''peak_mb'', PFloat (Finite False 8687021468732621 (- 46))),
                   (ascii ''language'', PStr (ascii ''Go'')), (ascii ''depth'', PInt 16)]]"
    by (simp add: measured rust_target_def go_target_def)
  from results_ordered_by_size_then_target [OF run] run show ?thesis
    by (simp add: rust_target_def go_target_def)
qed


section \<open>The build step and the report\<close>



lemma ensure_dotnet_built_exited:
  assumes "spawn S dotnet_publish (Some (joinpath (ROOT S) (ascii ''dotnet''))) (environ S) w
           = Exited rc out err fs"
  shows "ensure_dotnet_built S w =
     (if rc \<noteq> 0 then Inl (CalledProcessError rc dotnet_publish None None) else Inr (),
      w\<lparr>files := fs, spawned := spawned w @ [dotnet_publish],
        terminal := terminal w @ [(out, err)]\<rparr>)"
  using assms by (simp add: ensure_dotnet_built_def subprocess_run_def Let_def)

text \<open>
  The sibling \<^verbatim>\<open>ensure_rust_built\<close>, which \<^verbatim>\<open>main\<close> does not call, is the one build step
  whose exception carries the captured text.
\<close>

lemma ensure_rust_built_failure:
  assumes "spawn S [ascii ''cargo'', ascii ''build'', ascii ''--release'']
             (Some (joinpath (ROOT S) (ascii ''rust'')))
             ((environ S)(ascii ''PATH'' \<mapsto>
                joinpath (joinpath (HOME S) (ascii ''.cargo'')) (ascii ''bin'') @ ascii '':'' @
                (case environ S (ascii ''PATH'') of None \<Rightarrow> [] | Some p \<Rightarrow> p))) w
           = Exited rc out err fs"
      and "rc \<noteq> 0"
  shows "fst (ensure_rust_built S w)
         = Inl (RuntimeError (ascii ''cargo build --release '' @ [22833, 36133, 65306] @
                  (if err \<noteq> [] then err else out)))"
  using assms
  by (simp add: ensure_rust_built_def subprocess_run_def Let_def stderr_or_stdout_def)



text \<open>
  Claim C6, as the code has it. When the build step \<^verbatim>\<open>dotnet publish\<close> exits with a
  non-zero status, \<^verbatim>\<open>main\<close> ends with the \<^verbatim>\<open>CalledProcessError\<close> of \<^verbatim>\<open>subprocess.run\<close>, which
  carries the return code and the command but no captured text; the build is the only
  process that was started, so no measurement was requested; the exit status is 1;
  nothing is printed; and what the build wrote is on the streams it inherited.
\<close>

theorem build_failure_aborts_session:
  assumes "spawn S dotnet_publish (Some (joinpath (ROOT S) (ascii ''dotnet''))) (environ S) w
           = Exited rc out err fs"
      and "rc \<noteq> 0"
  shows "fst (main S a w) = Inl (CalledProcessError rc dotnet_publish None None) \<and>
         exit_status (fst (main S a w)) = 1 \<and>
         spawned (snd (main S a w)) = spawned w @ [dotnet_publish] \<and>
         terminal (snd (main S a w)) = terminal w @ [(out, err)] \<and>
         printed (snd (main S a w)) = printed w"
  using ensure_dotnet_built_exited [OF assms(1)] assms(2)
  by (simp add: main_def exit_status_def)

lemma example_build_fails:
  "spawn (example_host build_fails) dotnet_publish
     (Some (joinpath (ROOT (example_host build_fails)) (ascii ''dotnet'')))
     (environ (example_host build_fails)) w
   = Exited 1 [] (ascii ''error MSB1003'') (files w)"
  by (simp add: example_host_simps build_fails_def dotnet_publish_def)

theorem build_failure_counterexample:
  "fst (main (example_host build_fails) \<lparr>depths = [10, 16], python = ascii ''python3''\<rparr>
          empty_world)
   = Inl (CalledProcessError 1 dotnet_publish None None)"
  using ensure_dotnet_built_exited [OF example_build_fails, of empty_world]
  by (simp add: main_def)

theorem build_failure_aborts_session_witness:
  "fst (main (example_host build_fails) \<lparr>depths = [10, 16], python = ascii ''python3''\<rparr>
          empty_world)
     = Inl (CalledProcessError 1 dotnet_publish None None) \<and>
   exit_status (fst (main (example_host build_fails)
       \<lparr>depths = [10, 16], python = ascii ''python3''\<rparr> empty_world)) = 1 \<and>
   spawned (snd (main (example_host build_fails)
       \<lparr>depths = [10, 16], python = ascii ''python3''\<rparr> empty_world)) = [dotnet_publish] \<and>
   terminal (snd (main (example_host build_fails)
       \<lparr>depths = [10, 16], python = ascii ''python3''\<rparr> empty_world))
     = [([], ascii ''error MSB1003'')] \<and>
   printed (snd (main (example_host build_fails)
       \<lparr>depths = [10, 16], python = ascii ''python3''\<rparr> empty_world)) = []"
proof -
  have nz: "(1::int) \<noteq> 0" by simp
  from build_failure_aborts_session
         [where w = empty_world and a = "\<lparr>depths = [10, 16], python = ascii ''python3''\<rparr>",
          OF example_build_fails nz]
  show ?thesis by (simp add: empty_world_def exit_status_def)
qed





lemma str_int_10: "str_int 10 = ascii ''10''"
  by (simp add: str_int_def digits_of.simps ascii_def)











section \<open>The table\<close>

lemma length_ljust: "length (ljust s width) = max (length s) width"
  by (simp add: ljust_def)

lemma column_width_Cons:
  "column_width (r # tbl) j = max (length (r ! j)) (column_width tbl j)"
  by (simp add: column_width_def)

lemma column_width_ge: "r \<in> set tbl \<Longrightarrow> length (r ! j) \<le> column_width tbl j"
  by (induction tbl) (auto simp: column_width_Cons)

lemma column_width_Max:
  "tbl \<noteq> [] \<Longrightarrow> column_width tbl j = Max (set (map (\<lambda>r. length (r ! j)) tbl))"
proof (induction tbl)
  case Nil
  then show ?case by simp
next
  case (Cons r tbl)
  show ?case
  proof (cases "tbl = []")
    case True
    then show ?thesis by (simp add: column_width_def)
  next
    case False
    with Cons.IH show ?thesis by (simp add: column_width_Cons)
  qed
qed

lemma data_row_shape:
  assumes "data_row row = Inr r"
  shows "\<exists>l d ds p ps. getitem row (ascii ''language'') = Inr l \<and>
           getitem row (ascii ''depth'') = Inr d \<and> format_str d = Inr ds \<and>
           getitem row (ascii ''peak_mb'') = Inr p \<and> format_2f p = Inr ps \<and>
           r = [l, PStr ds, PStr ps]"
  using assms by (auto simp: data_row_def split: sum.splits)

lemma fmt_three:
  assumes "fmt [w0, w1, w2] [l, PStr b, PStr c] = Inr line"
  shows "\<exists>a. l = PStr a \<and> line = spec_row [w0, w1, w2] [a, b, c]"
  using assms
  by (cases l) (simp_all add: fmt_def spec_row_def)

lemma fmt_headers:
  "fmt [w0, w1, w2] (map PStr headers) = Inr (spec_row [w0, w1, w2] headers)"
  by (simp add: fmt_def spec_row_def headers_def)

lemma separator_three:
  "join (ascii ''-+-'') (map dashes [w0, w1, w2]) = spec_separator [w0, w1, w2]"
  by (simp add: spec_separator_def dashes_def)

lemma report_row_of_data_row:
  assumes "data_row row = Inr [PStr a, PStr ds, PStr ps]"
  shows "report_row row = Some [a, ds, ps]"
proof -
  from data_row_shape [OF assms] obtain l d p where
    "getitem row (ascii ''language'') = Inr l" "getitem row (ascii ''depth'') = Inr d"
    "format_str d = Inr ds" "getitem row (ascii ''peak_mb'') = Inr p" "format_2f p = Inr ps"
    "l = PStr a"
    by auto
  then show ?thesis by (simp add: report_row_def)
qed

text \<open>
  When \<^verbatim>\<open>format_table\<close> returns, the rows that were formatted are the report rows of the
  results.
\<close>

lemma formatted_rows:
  assumes "data_rows_of rows = Inr drs" and "fmt_rows [w0, w1, w2] drs = Inr body"
  shows "\<exists>cells. drs = map (map PStr) cells \<and> map report_row rows = map Some cells \<and>
           (\<forall>c \<in> set cells. length c = 3) \<and> body = map (spec_row [w0, w1, w2]) cells"
  using assms
proof (induction rows arbitrary: drs body)
  case Nil
  then show ?case by simp
next
  case (Cons row rows)
  from Cons.prems(1) obtain dr drs' where
    dr: "data_row row = Inr dr" and drs': "data_rows_of rows = Inr drs'" and d: "drs = dr # drs'"
    by (auto split: sum.splits)
  from Cons.prems(2) d obtain line body' where
    line: "fmt [w0, w1, w2] dr = Inr line" and body': "fmt_rows [w0, w1, w2] drs' = Inr body'"
    and b: "body = line # body'"
    by (auto split: sum.splits)
  from data_row_shape [OF dr] obtain l ds ps where shape: "dr = [l, PStr ds, PStr ps]"
    by auto
  from fmt_three [OF line [unfolded shape]] obtain a where
    a: "l = PStr a" "line = spec_row [w0, w1, w2] [a, ds, ps]"
    by auto
  from Cons.IH [OF drs' body'] obtain cells where
    c: "drs' = map (map PStr) cells" "map report_row rows = map Some cells"
       "\<forall>c \<in> set cells. length c = 3" "body' = map (spec_row [w0, w1, w2]) cells"
    by auto
  have r: "report_row row = Some [a, ds, ps]"
    using dr shape a(1) by (intro report_row_of_data_row) simp
  show ?case
    using c d b shape a r
    by (intro exI [of _ "[a, ds, ps] # cells"]) simp
qed

lemma widths_row_three:
  "widths_row [w0, w1, w2] 0 [PStr a, PStr b, PStr c]
     = Inr [max w0 (length a), max w1 (length b), max w2 (length c)]"
  by (simp add: py_len_def)

lemma widths_loop_strings:
  assumes "\<forall>c \<in> set cells. length c = 3"
  shows "widths_loop [w0, w1, w2] (map (map PStr) cells)
         = Inr [max w0 (column_width cells 0), max w1 (column_width cells 1),
                max w2 (column_width cells 2)]"
  using assms
proof (induction cells arbitrary: w0 w1 w2)
  case Nil
  show ?case by (simp add: column_width_def)
next
  case (Cons c cells)
  from Cons.prems have "length c = 3" by simp
  then obtain a b d where c: "c = [a, b, d]"
    by (cases c; cases "tl c"; cases "tl (tl c)") auto
  from Cons.prems have "\<forall>c \<in> set cells. length c = 3" by simp
  from Cons.IH [OF this]
  have "widths_loop [max w0 (length a), max w1 (length b), max w2 (length d)]
          (map (map PStr) cells)
        = Inr [max (max w0 (length a)) (column_width cells 0),
               max (max w1 (length b)) (column_width cells 1),
               max (max w2 (length d)) (column_width cells 2)]" .
  then show ?case
    unfolding c by (simp add: widths_row_three column_width_Cons max.assoc del: widths_row.simps)
qed

lemma header_widths:
  "map length headers = [column_width [headers] 0, column_width [headers] 1,
                         column_width [headers] 2]"
  by (simp add: headers_def column_width_def)


lemma widths_row_length: "widths_row ws i r = Inr ws' \<Longrightarrow> length ws' = length ws"
  by (induction ws i r rule: widths_row.induct) (auto split: if_splits sum.splits)

lemma widths_loop_length: "widths_loop ws drs = Inr ws' \<Longrightarrow> length ws' = length ws"
proof (induction drs arbitrary: ws)
  case Nil
  then show ?case by simp
next
  case (Cons r drs)
  from Cons.prems obtain ws1 where
    a: "widths_row ws 0 r = Inr ws1" and b: "widths_loop ws1 drs = Inr ws'"
    by (auto split: sum.splits)
  from Cons.IH [OF b] widths_row_length [OF a] show ?case by simp
qed

lemma length_three: "length (ws :: nat list) = 3 \<Longrightarrow> \<exists>w0 w1 w2. ws = [w0, w1, w2]"
  by (cases ws; cases "tl ws"; cases "tl (tl ws)") auto

lemma widths_of_table:
  assumes "\<forall>c \<in> set cells. length c = 3"
  shows "widths_loop (map length headers) (map (map PStr) cells)
         = Inr (column_widths (headers # cells))"
proof -
  have h: "map length headers = [2, 3, 11]" by (simp add: headers_def)
  have hl: "length (headers ! 0) = 2" "length (headers ! 1) = 3" "length (headers ! 2) = 11"
    by (simp_all add: headers_def)
  have "column_widths (headers # cells)
        = [max (length (headers ! 0)) (column_width cells 0),
           max (length (headers ! 1)) (column_width cells 1),
           max (length (headers ! 2)) (column_width cells 2)]"
    by (simp add: column_widths_def column_width_Cons)
  then have "column_widths (headers # cells)
        = [max 2 (column_width cells 0), max 3 (column_width cells 1),
           max 11 (column_width cells 2)]"
    unfolding hl .
  with widths_loop_strings [OF assms, of 2 3 11] h show ?thesis by simp
qed

lemma column_widths_nth: "j < 3 \<Longrightarrow> column_widths tbl ! j = column_width tbl j"
proof -
  assume "j < 3"
  then have "j = 0 \<or> j = 1 \<or> j = 2" by auto
  then show ?thesis by (auto simp: column_widths_def)
qed

lemma padded_to_width:
  assumes "r \<in> set tbl" and "j < 3"
  shows "length (r ! j) \<le> column_widths tbl ! j \<and>
         length (ljust (r ! j) (column_widths tbl ! j)) = column_widths tbl ! j"
  using column_width_ge [OF assms(1), of j] column_widths_nth [OF assms(2), of tbl]
  by (simp add: length_ljust)

lemma headers_length: "length headers = 3"
  by (simp add: headers_def)

lemma table_lines_layout:
  assumes "table_lines rows = Inr ls"
  shows "\<exists>cells.
           map report_row rows = map Some cells \<and>
           (\<forall>r \<in> set (headers # cells). length r = 3) \<and>
           ls = spec_row (column_widths (headers # cells)) headers #
                spec_separator (column_widths (headers # cells)) #
                map (spec_row (column_widths (headers # cells))) cells \<and>
           length ls = 2 + length rows \<and>
           (\<forall>r \<in> set (headers # cells). \<forall>j < 3.
              length (r ! j) \<le> column_widths (headers # cells) ! j \<and>
              length (ljust (r ! j) (column_widths (headers # cells) ! j))
                = column_widths (headers # cells) ! j) \<and>
           format_table rows = Inr (join [10] ls)"
proof -
  from assms obtain drs ws head body where
    d: "data_rows_of rows = Inr drs" and
    w: "widths_loop (map length headers) drs = Inr ws" and
    h: "fmt ws (map PStr headers) = Inr head" and
    b: "fmt_rows ws drs = Inr body" and
    l: "ls = [head, join (ascii ''-+-'') (map dashes ws)] @ body"
    by (auto simp: table_lines_def Let_def split: sum.splits)
  from widths_loop_length [OF w] have "length ws = 3" by (simp add: headers_length)
  from length_three [OF this] obtain w0 w1 w2 where ws: "ws = [w0, w1, w2]" by auto
  from formatted_rows [OF d b [unfolded ws]] obtain cells where
    c: "drs = map (map PStr) cells" "map report_row rows = map Some cells"
       "\<forall>c \<in> set cells. length c = 3" "body = map (spec_row [w0, w1, w2]) cells"
    by auto
  from w c(1) widths_of_table [OF c(3)]
  have wv: "ws = column_widths (headers # cells)" by simp
  have three: "\<forall>r \<in> set (headers # cells). length r = 3"
    using c(3) headers_length by simp
  have lines: "ls = spec_row ws headers # spec_separator ws # map (spec_row ws) cells"
    using l h c(4) fmt_headers [of w0 w1 w2] separator_three [of w0 w1 w2]
    unfolding ws by simp
  have "length cells = length rows"
    using c(2) by (metis length_map)
  with lines have len: "length ls = 2 + length rows" by simp
  have pad: "\<forall>r \<in> set (headers # cells). \<forall>j < 3.
              length (r ! j) \<le> column_widths (headers # cells) ! j \<and>
              length (ljust (r ! j) (column_widths (headers # cells) ! j))
                = column_widths (headers # cells) ! j"
    using padded_to_width by blast
  have ft: "format_table rows = Inr (join [10] ls)"
    using assms by (simp add: format_table_def)
  show ?thesis
    using c(2) three lines [unfolded wv] len pad ft
    by (intro exI [of _ cells] conjI)
qed


lemma format_5_00:
  "format_2f (PFloat (Finite False 5629499534213120 (- 50))) = Inr (ascii ''5.00'')"
proof -
  have "rhe_div (5629499534213120 * 100) (2 ^ 50) = 500"
    by (simp add: rhe_div_def Let_def)
  moreover have "digits_of 5 = ascii ''5''"
    by (simp add: digits_of.simps ascii_def)
  ultimately show ?thesis
    by (simp add: format_2f_def format_2f_float_def two_digits_def ascii_def)
qed

lemma format_12_30:
  "format_2f (PFloat (Finite False 6924284427082138 (- 49))) = Inr (ascii ''12.30'')"
proof -
  have "rhe_div (6924284427082138 * 100) (2 ^ 49) = 1230"
    by (simp add: rhe_div_def Let_def)
  moreover have "digits_of 12 = ascii ''12''"
    by (simp add: digits_of.simps ascii_def)
  ultimately show ?thesis
    by (simp add: format_2f_def format_2f_float_def two_digits_def ascii_def)
qed

lemma str_int_16: "str_int 16 = ascii ''16''"
  by (simp add: str_int_def digits_of.simps ascii_def)

lemma result_keys:
  "ascii ''peak_mb'' \<noteq> ascii ''language''" "ascii ''peak_mb'' \<noteq> ascii ''depth''"
  "ascii ''language'' \<noteq> ascii ''depth''"
  by (simp_all add: ascii_def)

lemma data_row_go:
  "data_row (PDict [(ascii ''peak_mb'', PFloat (Finite False 5629499534213120 (- 50))),
                    (ascii ''language'', PStr (ascii ''Go'')), (ascii ''depth'', PInt 10)])
   = Inr [PStr (ascii ''Go''), PStr (ascii ''10''), PStr (ascii ''5.00'')]"
  using result_keys
  by (simp add: data_row_def getitem_def format_str_def str_int_10 format_5_00)

lemma data_row_rust:
  "data_row (PDict [(ascii ''peak_mb'', PFloat (Finite False 6924284427082138 (- 49))),
                    (ascii ''language'', PStr (ascii ''Rust'')), (ascii ''depth'', PInt 16)])
   = Inr [PStr (ascii ''Rust''), PStr (ascii ''16''), PStr (ascii ''12.30'')]"
  using result_keys
  by (simp add: data_row_def getitem_def format_str_def str_int_16 format_12_30)

lemma table_go_rust:
  "table_lines
     [PDict [(ascii ''peak_mb'', PFloat (Finite False 5629499534213120 (- 50))),
             (ascii ''language'', PStr (ascii ''Go'')), (ascii ''depth'', PInt 10)],
      PDict [(ascii ''peak_mb'', PFloat (Finite False 6924284427082138 (- 49))),
             (ascii ''language'', PStr (ascii ''Rust'')), (ascii ''depth'', PInt 16)]]
   = Inr [[35821, 35328] @ ascii ''   | '' @ [26641, 28145, 24230] @ ascii '' | '' @
            [23792, 20540] @ ascii '' RSS (MB)'',
          ascii ''-----+-----+------------'',
          ascii ''Go   | 10  | 5.00       '',
          ascii ''Rust | 16  | 12.30      '']"
proof -
  have dr: "data_rows_of
     [PDict [(ascii ''peak_mb'', PFloat (Finite False 5629499534213120 (- 50))),
             (ascii ''language'', PStr (ascii ''Go'')), (ascii ''depth'', PInt 10)],
      PDict [(ascii ''peak_mb'', PFloat (Finite False 6924284427082138 (- 49))),
             (ascii ''language'', PStr (ascii ''Rust'')), (ascii ''depth'', PInt 16)]]
     = Inr [[PStr (ascii ''Go''), PStr (ascii ''10''), PStr (ascii ''5.00'')],
            [PStr (ascii ''Rust''), PStr (ascii ''16''), PStr (ascii ''12.30'')]]"
    by (simp add: data_row_go data_row_rust)
  show ?thesis
    unfolding table_lines_def dr
    by (simp add: headers_def py_len_def fmt_def ljust_def dashes_def ascii_def)
qed

lemma report_rows_go_rust:
  "map report_row
     [PDict [(ascii ''peak_mb'', PFloat (Finite False 5629499534213120 (- 50))),
             (ascii ''language'', PStr (ascii ''Go'')), (ascii ''depth'', PInt 10)],
      PDict [(ascii ''peak_mb'', PFloat (Finite False 6924284427082138 (- 49))),
             (ascii ''language'', PStr (ascii ''Rust'')), (ascii ''depth'', PInt 16)]]
   = [Some [ascii ''Go'', ascii ''10'', ascii ''5.00''],
      Some [ascii ''Rust'', ascii ''16'', ascii ''12.30'']]"
  using report_row_of_data_row [OF data_row_go] report_row_of_data_row [OF data_row_rust]
  by simp

lemma widths_go_rust:
  "column_widths [headers, [ascii ''Go'', ascii ''10'', ascii ''5.00''],
                  [ascii ''Rust'', ascii ''16'', ascii ''12.30'']] = [4, 3, 11]"
  by (simp add: column_widths_def column_width_def headers_def ascii_def)

lemma fmt_strings:
  "fmt [w0, w1, w2] [PStr a, PStr b, PStr c] = Inr (spec_row [w0, w1, w2] [a, b, c])"
  by (simp add: fmt_def spec_row_def)

lemma fmt_rows_strings:
  assumes "\<forall>c \<in> set cells. length c = 3"
  shows "fmt_rows [w0, w1, w2] (map (map PStr) cells) = Inr (map (spec_row [w0, w1, w2]) cells)"
  using assms
proof (induction cells)
  case Nil
  show ?case by simp
next
  case (Cons c cells)
  from Cons.prems have "length c = 3" by simp
  then obtain a b d where c: "c = [a, b, d]"
    by (cases c; cases "tl c"; cases "tl (tl c)") auto
  from Cons.prems have "\<forall>c \<in> set cells. length c = 3" by simp
  from Cons.IH [OF this] show ?case
    unfolding c by (simp add: fmt_strings del: fmt_cells.simps)
qed

lemma data_row_of_report_row:
  assumes "report_row row = Some c"
  shows "data_row row = Inr (map PStr c) \<and> length c = 3"
  using assms
  by (auto simp: report_row_def data_row_def split: sum.splits pyval.splits)

lemma data_rows_of_report_rows:
  assumes "\<forall>r \<in> set rows. report_row r \<noteq> None"
  shows "\<exists>cells. data_rows_of rows = Inr (map (map PStr) cells) \<and>
           (\<forall>c \<in> set cells. length c = 3)"
  using assms
proof (induction rows)
  case Nil
  show ?case by simp
next
  case (Cons row rows)
  from Cons.prems obtain c where "report_row row = Some c" by auto
  from data_row_of_report_row [OF this]
  have c: "data_row row = Inr (map PStr c)" "length c = 3" by simp_all
  from Cons.prems have "\<forall>r \<in> set rows. report_row r \<noteq> None" by simp
  from Cons.IH [OF this] obtain cells where
    cs: "data_rows_of rows = Inr (map (map PStr) cells)" "\<forall>c \<in> set cells. length c = 3"
    by auto
  show ?case
    using c cs by (intro exI [of _ "c # cells"]) simp
qed

text \<open>\<^verbatim>\<open>format_table\<close> returns for every list of results that have a report row.\<close>

lemma table_lines_returns:
  assumes "\<forall>r \<in> set rows. report_row r \<noteq> None"
  shows "\<exists>ls. table_lines rows = Inr ls"
proof -
  from data_rows_of_report_rows [OF assms] obtain cells where
    d: "data_rows_of rows = Inr (map (map PStr) cells)" and t: "\<forall>c \<in> set cells. length c = 3"
    by auto
  have w: "widths_loop (map length headers) (map (map PStr) cells)
           = Inr (column_widths (headers # cells))"
    by (rule widths_of_table [OF t])
  obtain w0 w1 w2 where ws: "column_widths (headers # cells) = [w0, w1, w2]"
    by (simp add: column_widths_def)
  show ?thesis
    unfolding table_lines_def d
    by (simp add: w ws fmt_headers fmt_rows_strings [OF t])
qed

text \<open>
  Claim C7. For every list of results that each have a report row of three cells
  (language, size, peak memory with two decimals), \<^verbatim>\<open>format_table\<close> returns the lines
  joined by newlines, and the lines are the header row, the separator row and one row
  per result, in the order of the results; the width of a column is the maximum of the
  lengths of its header label and of its cells; every cell is left-justified and padded
  to exactly that width, the cells of a row joined with \<^verbatim>\<open>" | "\<close>; and the separator is
  one run of dashes per column, as long as the column is wide, joined with \<^verbatim>\<open>"-+-"\<close>.
\<close>

theorem format_table_layout:
  assumes "\<forall>r \<in> set rows. report_row r \<noteq> None"
  shows "\<exists>cells ls.
           table_lines rows = Inr ls \<and>
           format_table rows = Inr (join [10] ls) \<and>
           map report_row rows = map Some cells \<and>
           (\<forall>r \<in> set (headers # cells). length r = 3) \<and>
           ls = spec_row (column_widths (headers # cells)) headers #
                spec_separator (column_widths (headers # cells)) #
                map (spec_row (column_widths (headers # cells))) cells \<and>
           length ls = 2 + length rows \<and>
           (\<forall>r \<in> set (headers # cells). \<forall>j < 3.
              length (r ! j) \<le> column_widths (headers # cells) ! j \<and>
              length (ljust (r ! j) (column_widths (headers # cells) ! j))
                = column_widths (headers # cells) ! j)"
proof -
  from table_lines_returns [OF assms] obtain ls where ls: "table_lines rows = Inr ls" ..
  from table_lines_layout [OF ls] obtain cells where
    "map report_row rows = map Some cells"
    "\<forall>r \<in> set (headers # cells). length r = 3"
    "ls = spec_row (column_widths (headers # cells)) headers #
                spec_separator (column_widths (headers # cells)) #
                map (spec_row (column_widths (headers # cells))) cells"
    "length ls = 2 + length rows"
    "\<forall>r \<in> set (headers # cells). \<forall>j < 3.
              length (r ! j) \<le> column_widths (headers # cells) ! j \<and>
              length (ljust (r ! j) (column_widths (headers # cells) ! j))
                = column_widths (headers # cells) ! j"
    "format_table rows = Inr (join [10] ls)"
    by (elim exE conjE)
  with ls show ?thesis
    by (intro exI [of _ cells] exI [of _ ls] conjI)
qed

theorem format_table_layout_witness:
  "table_lines
     [PDict [(ascii ''peak_mb'', PFloat (Finite False 5629499534213120 (- 50))),
             (ascii ''language'', PStr (ascii ''Go'')), (ascii ''depth'', PInt 10)],
      PDict [(ascii ''peak_mb'', PFloat (Finite False 6924284427082138 (- 49))),
             (ascii ''language'', PStr (ascii ''Rust'')), (ascii ''depth'', PInt 16)]]
   = Inr [[35821, 35328] @ ascii ''   | '' @ [26641, 28145, 24230] @ ascii '' | '' @
            [23792, 20540] @ ascii '' RSS (MB)'',
          ascii ''-----+-----+------------'',
          ascii ''Go   | 10  | 5.00       '',
          ascii ''Rust | 16  | 12.30      ''] \<and>
   column_widths [headers, [ascii ''Go'', ascii ''10'', ascii ''5.00''],
                  [ascii ''Rust'', ascii ''16'', ascii ''12.30'']] = [4, 3, 11] \<and>
   [[35821, 35328] @ ascii ''   | '' @ [26641, 28145, 24230] @ ascii '' | '' @
            [23792, 20540] @ ascii '' RSS (MB)'',
          ascii ''-----+-----+------------'',
          ascii ''Go   | 10  | 5.00       '',
          ascii ''Rust | 16  | 12.30      '']
   = [spec_row [4, 3, 11] headers, spec_separator [4, 3, 11],
      spec_row [4, 3, 11] [ascii ''Go'', ascii ''10'', ascii ''5.00''],
      spec_row [4, 3, 11] [ascii ''Rust'', ascii ''16'', ascii ''12.30'']]"
proof -
  let ?L = "[[35821, 35328] @ ascii ''   | '' @ [26641, 28145, 24230] @ ascii '' | '' @
            [23792, 20540] @ ascii '' RSS (MB)'',
          ascii ''-----+-----+------------'',
          ascii ''Go   | 10  | 5.00       '',
          ascii ''Rust | 16  | 12.30      '']"
  let ?rows = "[PDict [(ascii ''peak_mb'', PFloat (Finite False 5629499534213120 (- 50))),
             (ascii ''language'', PStr (ascii ''Go'')), (ascii ''depth'', PInt 10)],
      PDict [(ascii ''peak_mb'', PFloat (Finite False 6924284427082138 (- 49))),
             (ascii ''language'', PStr (ascii ''Rust'')), (ascii ''depth'', PInt 16)]]"
  have wf: "\<forall>r \<in> set ?rows. report_row r \<noteq> None"
    using report_rows_go_rust by simp
  from format_table_layout [OF wf] obtain cells ls where
    t: "table_lines ?rows = Inr ls"
    and c: "map report_row ?rows = map Some cells"
    and l: "ls = spec_row (column_widths (headers # cells)) headers #
                spec_separator (column_widths (headers # cells)) #
                map (spec_row (column_widths (headers # cells))) cells"
    by (elim exE conjE)
  from t table_go_rust have ll: "ls = ?L" by simp
  from c report_rows_go_rust
  have "map Some cells = [Some [ascii ''Go'', ascii ''10'', ascii ''5.00''],
      Some [ascii ''Rust'', ascii ''16'', ascii ''12.30'']]" by simp
  then have cs: "cells = [[ascii ''Go'', ascii ''10'', ascii ''5.00''],
      [ascii ''Rust'', ascii ''16'', ascii ''12.30'']]"
    by (auto simp: map_eq_Cons_conv)
  from l have "?L = [spec_row [4, 3, 11] headers, spec_separator [4, 3, 11],
      spec_row [4, 3, 11] [ascii ''Go'', ascii ''10'', ascii ''5.00''],
      spec_row [4, 3, 11] [ascii ''Rust'', ascii ''16'', ascii ''12.30'']]"
    unfolding ll cs widths_go_rust by simp
  with table_go_rust widths_go_rust show ?thesis by (intro conjI)
qed

end
